theory Spec2Isabelle
  imports Main "HOL-Library.AList"
begin

section \<open>JavaScript values of the registration form\<close>

text \<open>
  The form state of \<^verbatim>\<open>Register.jsx\<close> holds strings and one boolean; reading a property
  that an object does not have gives \<^verbatim>\<open>undefined\<close>. A \<^typ>\<open>string\<close> of the model is a
  JavaScript string whose code units are below 256, one \<^typ>\<open>char\<close> per code unit, so
  \<^const>\<open>length\<close> is the \<^verbatim>\<open>.length\<close> of the source.
\<close>

datatype jsval = JUndefined | JBool bool | JStr string

datatype exn =
    Error string    \<comment> \<open>\<^verbatim>\<open>new Error(message)\<close>\<close>
  | TypeError       \<comment> \<open>reading a property of \<^verbatim>\<open>undefined\<close> or \<^verbatim>\<open>null\<close>\<close>
  | SyntaxError     \<comment> \<open>\<^verbatim>\<open>res.json()\<close> on a body that is not JSON\<close>
  | FetchFailed     \<comment> \<open>\<^verbatim>\<open>fetch\<close> rejected: no response at all\<close>

text \<open>\<^verbatim>\<open>!value\<close> is the negation of this.\<close>

fun truthy :: "jsval \<Rightarrow> bool" where
  "truthy JUndefined = False"
| "truthy (JBool b) = b"
| "truthy (JStr s) = (s \<noteq> [])"

text \<open>
  \<^verbatim>\<open>value.length\<close>: the number of code units of a string, \<^verbatim>\<open>undefined\<close> (here
  \<^const>\<open>None\<close>) on a boolean, and a TypeError on \<^verbatim>\<open>undefined\<close>.
\<close>

fun js_length :: "jsval \<Rightarrow> exn + nat option" where
  "js_length JUndefined = Inl TypeError"
| "js_length (JBool b) = Inr None"
| "js_length (JStr s) = Inr (Some (length s))"

text \<open>\<^verbatim>\<open>a < n\<close> for a number \<^verbatim>\<open>n\<close>: \<^verbatim>\<open>undefined\<close> converts to NaN, which is below nothing.\<close>

fun js_less :: "nat option \<Rightarrow> nat \<Rightarrow> bool" where
  "js_less None n = False"
| "js_less (Some a) n = (a < n)"

text \<open>The string conversion that \<^verbatim>\<open>RegExp.prototype.test\<close> applies to its argument.\<close>

fun to_string :: "jsval \<Rightarrow> string" where
  "to_string JUndefined = ''undefined''"
| "to_string (JBool b) = (if b then ''true'' else ''false'')"
| "to_string (JStr s) = s"

section \<open>Regular expressions\<close>

text \<open>
  The three patterns of the rule table are anchored at both ends (\<^verbatim>\<open>^...$\<close>, no flags), so
  \<^verbatim>\<open>test\<close> asks whether the whole string matches. They are built from character classes,
  sequence, \<^verbatim>\<open>+\<close> and \<^verbatim>\<open>{n}\<close>; the matcher works by derivatives, which needs alternation
  and the two trivial expressions as well.
\<close>

datatype regex =
    Never
  | Empty
  | Class "char \<Rightarrow> bool"
  | Alt regex regex
  | Seq regex regex
  | Many regex

definition one_or_more :: "regex \<Rightarrow> regex" where
  "one_or_more r = Seq r (Many r)"

fun exactly :: "nat \<Rightarrow> regex \<Rightarrow> regex" where
  "exactly 0 r = Empty"
| "exactly (Suc n) r = Seq r (exactly n r)"

fun accepts_empty :: "regex \<Rightarrow> bool" where
  "accepts_empty Never = False"
| "accepts_empty Empty = True"
| "accepts_empty (Class p) = False"
| "accepts_empty (Alt r s) = (accepts_empty r \<or> accepts_empty s)"
| "accepts_empty (Seq r s) = (accepts_empty r \<and> accepts_empty s)"
| "accepts_empty (Many r) = True"

fun after :: "char \<Rightarrow> regex \<Rightarrow> regex" where
  "after c Never = Never"
| "after c Empty = Never"
| "after c (Class p) = (if p c then Empty else Never)"
| "after c (Alt r s) = Alt (after c r) (after c s)"
| "after c (Seq r s) =
     (if accepts_empty r then Alt (Seq (after c r) s) (after c s) else Seq (after c r) s)"
| "after c (Many r) = Seq (after c r) (Many r)"

fun regex_test :: "regex \<Rightarrow> string \<Rightarrow> bool" where
  "regex_test r [] = accepts_empty r"
| "regex_test r (c # cs) = regex_test (after c r) cs"

text \<open>The words of an expression, as a set: what the matcher is checked against.\<close>

definition concat_words :: "string set \<Rightarrow> string set \<Rightarrow> string set" where
  "concat_words A B = {u @ v | u v. u \<in> A \<and> v \<in> B}"

inductive_set repeat_words :: "string set \<Rightarrow> string set" for A :: "string set" where
  none: "[] \<in> repeat_words A"
| more: "u \<in> A \<Longrightarrow> v \<in> repeat_words A \<Longrightarrow> u @ v \<in> repeat_words A"

fun words :: "regex \<Rightarrow> string set" where
  "words Never = {}"
| "words Empty = {[]}"
| "words (Class p) = {[c] | c. p c}"
| "words (Alt r s) = words r \<union> words s"
| "words (Seq r s) = concat_words (words r) (words s)"
| "words (Many r) = repeat_words (words r)"

text \<open>
  Character classes. \<^verbatim>\<open>\d\<close> is \<^verbatim>\<open>[0-9]\<close>; \<^verbatim>\<open>\s\<close> is, among the code units below 256, tab,
  line feed, vertical tab, form feed, carriage return, space and the no-break space.
\<close>

definition code :: "char \<Rightarrow> nat" where
  "code c = of_char c"

definition is_letter :: "char \<Rightarrow> bool" where
  "is_letter c = ((0x41 \<le> code c \<and> code c \<le> 0x5A) \<or> (0x61 \<le> code c \<and> code c \<le> 0x7A))"

definition is_digit :: "char \<Rightarrow> bool" where
  "is_digit c = (0x30 \<le> code c \<and> code c \<le> 0x39)"

definition is_space :: "char \<Rightarrow> bool" where
  "is_space c = ((9 \<le> code c \<and> code c \<le> 13) \<or> code c = 0x20 \<or> code c = 0xA0)"

text \<open>\<^verbatim>\<open>/^[A-Za-z\s]+$/\<close>\<close>

definition fullName_pattern :: regex where
  "fullName_pattern = one_or_more (Class (\<lambda>c. is_letter c \<or> is_space c))"

text \<open>\<^verbatim>\<open>/^[^@\s]+@[^@\s]+\.[^@\s]+$/\<close>  The class \<^verbatim>\<open>[^@\s]\<close> is named \<open>email_part\<close> with its \<^verbatim>\<open>+\<close>.\<close>

definition email_part :: regex where
  "email_part = one_or_more (Class (\<lambda>c. \<not> (c = CHR ''@'' \<or> is_space c)))"

definition email_pattern :: regex where
  "email_pattern =
     Seq email_part (Seq (Class (\<lambda>c. c = CHR ''@''))
       (Seq email_part (Seq (Class (\<lambda>c. c = CHR ''.'')) email_part)))"

text \<open>\<^verbatim>\<open>/^\d{10}$/\<close>\<close>

definition phone_pattern :: regex where
  "phone_pattern = exactly 10 (Class is_digit)"

section \<open>The validation rules\<close>

text \<open>
  One entry of \<^verbatim>\<open>validationRules\<close>. A property that an entry does not have is \<^const>\<open>None\<close>;
  \<^verbatim>\<open>messages\<close> is the object of messages, by key.
\<close>

record rule =
  required :: bool
  minLength :: "nat option"
  maxLength :: "nat option"
  pattern :: "regex option"
  messages :: "(string \<times> string) list"

definition validationRules :: "(string \<times> rule) list" where
  "validationRules =
    [(''fullName'',
        \<lparr>required = True, minLength = Some 2, maxLength = Some 50,
         pattern = Some fullName_pattern,
         messages = [(''required'', ''Full name is required''),
                     (''minLength'', ''Full name must be at least 2 characters''),
                     (''pattern'', ''Full name can contain only letters and spaces'')]\<rparr>),
     (''email'',
        \<lparr>required = True, minLength = None, maxLength = None,
         pattern = Some email_pattern,
         messages = [(''required'', ''Email is required''),
                     (''pattern'', ''Invalid email address'')]\<rparr>),
     (''phone'',
        \<lparr>required = True, minLength = None, maxLength = None,
         pattern = Some phone_pattern,
         messages = [(''required'', ''Phone number is required''),
                     (''pattern'', ''Phone number must be exactly 10 digits'')]\<rparr>),
     (''password'',
        \<lparr>required = True, minLength = Some 8, maxLength = None,
         pattern = None,
         messages = [(''required'', ''Password is required''),
                     (''minLength'', ''Password must be at least 8 characters'')]\<rparr>),
     (''confirmPassword'',
        \<lparr>required = True, minLength = None, maxLength = None,
         pattern = None,
         messages = [(''required'', ''Please confirm your password''),
                     (''mismatch'', ''Passwords do not match'')]\<rparr>),
     (''agreeToTerms'',
        \<lparr>required = True, minLength = None, maxLength = None,
         pattern = None,
         messages = [(''required'', ''You must agree to the Terms & Conditions'')]\<rparr>)]"

text \<open>\<^verbatim>\<open>rule.messages.key\<close>: the message, or \<^verbatim>\<open>undefined\<close> when the object has none under the key.\<close>

definition message :: "rule \<Rightarrow> string \<Rightarrow> jsval" where
  "message r k = (case map_of (messages r) k of None \<Rightarrow> JUndefined | Some m \<Rightarrow> JStr m)"

text \<open>
  The form state: the value of each property, \<^const>\<open>JUndefined\<close> for a property the object
  does not have.
\<close>

type_synonym formData = "string \<Rightarrow> jsval"

section \<open>Validation of one field and of the form\<close>

text \<open>\<^verbatim>\<open>rule.minLength && value.length < rule.minLength\<close>\<close>

definition below_minLength :: "rule \<Rightarrow> jsval \<Rightarrow> exn + bool" where
  "below_minLength r v =
     (case minLength r of
        None \<Rightarrow> Inr False
      | Some n \<Rightarrow>
          if n = 0 then Inr False
          else (case js_length v of Inl e \<Rightarrow> Inl e | Inr l \<Rightarrow> Inr (js_less l n)))"

text \<open>\<^verbatim>\<open>rule.pattern && !rule.pattern.test(value)\<close>\<close>

definition fails_pattern :: "rule \<Rightarrow> jsval \<Rightarrow> bool" where
  "fails_pattern r v =
     (case pattern r of None \<Rightarrow> False | Some p \<Rightarrow> \<not> regex_test p (to_string v))"

definition validateField :: "string \<Rightarrow> jsval \<Rightarrow> formData \<Rightarrow> exn + jsval" where
  "validateField fieldName v fd =
     (case map_of validationRules fieldName of
        None \<Rightarrow> Inr (JStr [])
      | Some r \<Rightarrow>
          if required r \<and> \<not> truthy v then Inr (message r ''required'')
          else (case below_minLength r v of
                  Inl e \<Rightarrow> Inl e
                | Inr True \<Rightarrow> Inr (message r ''minLength'')
                | Inr False \<Rightarrow>
                    if fails_pattern r v then Inr (message r ''pattern'')
                    else if fieldName = ''confirmPassword'' \<and> v \<noteq> fd ''password''
                      then Inr (message r ''mismatch'')
                    else Inr (JStr [])))"

text \<open>
  \<^verbatim>\<open>validateForm\<close>: the \<^verbatim>\<open>forEach\<close> over \<^verbatim>\<open>Object.keys(validationRules)\<close>, with the object
  \<^verbatim>\<open>errors\<close> as the list of its properties in insertion order. \<^verbatim>\<open>errors[fieldName] = error\<close>
  replaces the value of an existing property and appends a new one.
\<close>

type_synonym errors = "(string \<times> jsval) list"

fun validate_each :: "string list \<Rightarrow> formData \<Rightarrow> errors \<Rightarrow> exn + errors" where
  "validate_each [] fd errs = Inr errs"
| "validate_each (fieldName # rest) fd errs =
     (case validateField fieldName (fd fieldName) fd of
        Inl e \<Rightarrow> Inl e
      | Inr error \<Rightarrow>
          validate_each rest fd
            (if truthy error then AList.update fieldName error errs else errs))"

definition validateForm :: "formData \<Rightarrow> exn + errors" where
  "validateForm fd = validate_each (map fst validationRules) fd []"

text \<open>
  The per-field algorithm in the specification's words: the message of the first failing
  check, in the order required, minimum length, pattern, password confirmation; the empty
  string when no check fails or the field has no rule.
\<close>

definition empty_or_falsy :: "jsval \<Rightarrow> bool" where
  "empty_or_falsy v = (v = JUndefined \<or> v = JBool False \<or> v = JStr [])"

definition length_below :: "jsval \<Rightarrow> nat \<Rightarrow> bool" where
  "length_below v n = (case v of JStr s \<Rightarrow> length s < n | _ \<Rightarrow> False)"

definition message_text :: "rule \<Rightarrow> string \<Rightarrow> string" where
  "message_text r k = (case map_of (messages r) k of None \<Rightarrow> [] | Some m \<Rightarrow> m)"

definition first_failure :: "string \<Rightarrow> jsval \<Rightarrow> formData \<Rightarrow> string" where
  "first_failure fieldName v fd =
     (case map_of validationRules fieldName of
        None \<Rightarrow> []
      | Some r \<Rightarrow>
          if required r \<and> empty_or_falsy v then message_text r ''required''
          else if (case minLength r of None \<Rightarrow> False | Some n \<Rightarrow> length_below v n)
            then message_text r ''minLength''
          else if (case pattern r of None \<Rightarrow> False | Some p \<Rightarrow> \<not> regex_test p (to_string v))
            then message_text r ''pattern''
          else if fieldName = ''confirmPassword'' \<and> v \<noteq> fd ''password''
            then message_text r ''mismatch''
          else [])"

section \<open>Configuration (config.js)\<close>

text \<open>
  \<^verbatim>\<open>process.env\<close> maps a variable to its string, or to nothing. The only exceptions of
  \<^verbatim>\<open>config.js\<close> are \<^verbatim>\<open>throw new Error(message)\<close>: here \<^term>\<open>Inl message\<close>. A call of
  \<^verbatim>\<open>console.log\<close>, \<^verbatim>\<open>console.warn\<close> or \<^verbatim>\<open>console.error\<close> is recorded with its label (without
  the pictograph that starts it in the source) and its further arguments.
\<close>

type_synonym env = "string \<Rightarrow> string option"

datatype console = Log string "string list" | Warn string "string list" | Err string "string list"

text \<open>\<^verbatim>\<open>!process.env.X\<close>\<close>

fun absent :: "string option \<Rightarrow> bool" where
  "absent None = True"
| "absent (Some s) = (s = [])"

text \<open>\<^verbatim>\<open>process.env.X || d\<close>\<close>

fun or_default :: "string option \<Rightarrow> string \<Rightarrow> string" where
  "or_default None d = d"
| "or_default (Some s) d = (if s = [] then d else s)"

text \<open>\<^verbatim>\<open>errors.join(', ')\<close>\<close>

fun join :: "string \<Rightarrow> string list \<Rightarrow> string" where
  "join sep [] = []"
| "join sep [x] = x"
| "join sep (x # y # ys) = x @ sep @ join sep (y # ys)"

definition validateConfig :: "env \<Rightarrow> console list \<times> (string + bool)" where
  "validateConfig e =
     (let errors = (if absent (e ''REACT_APP_API_BASE_URL'')
                    then [''REACT_APP_API_BASE_URL is required''] else []);
          warnings =
            (if absent (e ''REACT_APP_RP_ID'')
             then [''REACT_APP_RP_ID is not set - passkey functionality may not work''] else []) @
            (if absent (e ''REACT_APP_RP_NAME'')
             then [''REACT_APP_RP_NAME is not set - using default''] else []);
          warned = (if warnings \<noteq> [] then [Warn ''Configuration warnings:'' warnings] else [])
      in if errors \<noteq> []
         then (warned @ [Err ''Configuration errors:'' errors],
               Inl (''Missing required environment variables: '' @ join '', '' errors))
         else (warned, Inr True))"

definition getApiBaseUrl :: "env \<Rightarrow> string + string" where
  "getApiBaseUrl e =
     (case e ''REACT_APP_API_BASE_URL'' of
        None \<Rightarrow> Inl ''REACT_APP_API_BASE_URL environment variable is required''
      | Some apiUrl \<Rightarrow>
          if apiUrl = [] then Inl ''REACT_APP_API_BASE_URL environment variable is required''
          else Inr apiUrl)"

definition getRpId :: "env \<Rightarrow> string" where
  "getRpId e = or_default (e ''REACT_APP_RP_ID'') []"

definition getRpName :: "env \<Rightarrow> string" where
  "getRpName e = or_default (e ''REACT_APP_RP_NAME'') ''Digital Identity Hub''"

definition initializeConfig :: "env \<Rightarrow> console list \<times> bool" where
  "initializeConfig e =
     (case validateConfig e of
        (out, Inl m) \<Rightarrow> (out @ [Err ''Configuration validation failed:'' [m]], False)
      | (out, Inr valid) \<Rightarrow>
          (case getApiBaseUrl e of
             Inl m \<Rightarrow>
               (out @ [Log ''Configuration validated successfully'' [],
                       Err ''Configuration validation failed:'' [m]], False)
           | Inr u \<Rightarrow>
               (out @ [Log ''Configuration validated successfully'' [],
                       Log ''API Base URL:'' [u],
                       Log ''RP ID:'' [getRpId e],
                       Log ''RP Name:'' [getRpName e]], True)))"

section \<open>The registration form (Register.jsx)\<close>

subsection \<open>The backend as the form sees it\<close>

text \<open>
  A JSON value, as \<^verbatim>\<open>res.json()\<close> parses it and as \<^verbatim>\<open>JSON.stringify\<close> writes it. An object
  is the list of its properties, each key once. Numbers are kept as integers: the form only
  asks whether one is zero.
\<close>

datatype json =
    JNull
  | JBoolean bool
  | JNumber int
  | JString string
  | JArray "json list"
  | JObject "(string \<times> json) list"

fun json_truthy :: "json \<Rightarrow> bool" where
  "json_truthy JNull = False"
| "json_truthy (JBoolean b) = b"
| "json_truthy (JNumber n) = (n \<noteq> 0)"
| "json_truthy (JString s) = (s \<noteq> [])"
| "json_truthy (JArray xs) = True"
| "json_truthy (JObject kvs) = True"

text \<open>
  \<^verbatim>\<open>errorData.message\<close>: a TypeError on \<^verbatim>\<open>null\<close>, the property of an object when it has
  one, \<^verbatim>\<open>undefined\<close> (here \<^const>\<open>None\<close>) otherwise.
\<close>

fun get_message :: "json \<Rightarrow> exn + json option" where
  "get_message JNull = Inl TypeError"
| "get_message (JObject kvs) = Inr (map_of kvs ''message'')"
| "get_message j = Inr None"

text \<open>\<^verbatim>\<open>errorData.message || "Registration failed"\<close>\<close>

fun or_fallback :: "json option \<Rightarrow> json" where
  "or_fallback None = JString ''Registration failed''"
| "or_fallback (Some j) = (if json_truthy j then j else JString ''Registration failed'')"

text \<open>
  The request that \<^verbatim>\<open>fetch\<close> is given. The body is the JSON value that the string made by
  \<^verbatim>\<open>JSON.stringify\<close> denotes: a property whose value is \<^verbatim>\<open>undefined\<close> is left out.
\<close>

record request =
  url :: string
  http_method :: string
  headers :: "(string \<times> string) list"
  body :: json

fun stringify_property :: "string \<times> jsval \<Rightarrow> (string \<times> json) list" where
  "stringify_property (k, JUndefined) = []"
| "stringify_property (k, JBool b) = [(k, JBoolean b)]"
| "stringify_property (k, JStr s) = [(k, JString s)]"

definition stringify :: "(string \<times> jsval) list \<Rightarrow> json" where
  "stringify props = JObject (concat (map stringify_property props))"

text \<open>
  What \<^verbatim>\<open>fetch\<close> gives back: it rejects, or resolves to a response with a status and a body
  that \<^verbatim>\<open>res.json()\<close> parses or not. \<^verbatim>\<open>res.ok\<close> holds for the statuses 200 to 299.
\<close>

datatype response_body = NotJson | Json json

datatype fetch_result = Rejected | Response nat response_body

type_synonym backend = "request \<Rightarrow> fetch_result"

definition ok :: "nat \<Rightarrow> bool" where
  "ok status = (200 \<le> status \<and> status \<le> 299)"

subsection \<open>Submission\<close>

text \<open>\<^verbatim>\<open>{ success: true }\<close> and \<^verbatim>\<open>{ success: false, message }\<close>\<close>

datatype submit_result = Success | Failure json

text \<open>
  What the handlers do, in order: the state setters of the component, the request, the
  navigation and the console.
\<close>

datatype effect =
    SetFormErrors errors
  | SetLoading bool
  | SetError json
  | Fetch request
  | Navigate string
  | ConsoleError string exn

definition registration_request :: "string \<Rightarrow> formData \<Rightarrow> request" where
  "registration_request apiBaseUrl d =
     \<lparr>url = apiBaseUrl @ ''/auth/user/register'',
      http_method = ''POST'',
      headers = [(''Content-Type'', ''application/json'')],
      body = stringify [(''fullName'', d ''fullName''), (''email'', d ''email''),
                        (''phone'', d ''phone''), (''password'', d ''password'')]\<rparr>"

text \<open>
  \<^verbatim>\<open>submitRegistration\<close> gives the effects it had and then its result or what it threw. The
  URL is built first, so an exception of \<^verbatim>\<open>getApiBaseUrl\<close> comes before any request.
\<close>

definition submitRegistration :: "env \<Rightarrow> backend \<Rightarrow> formData \<Rightarrow> effect list \<times> (exn + submit_result)" where
  "submitRegistration e server d =
     (case getApiBaseUrl e of
        Inl m \<Rightarrow> ([], Inl (Error m))
      | Inr apiBaseUrl \<Rightarrow>
          ([Fetch (registration_request apiBaseUrl d)],
           (case server (registration_request apiBaseUrl d) of
              Rejected \<Rightarrow> Inl FetchFailed
            | Response status b \<Rightarrow>
                if \<not> ok status then
                  (case b of
                     NotJson \<Rightarrow> Inl SyntaxError
                   | Json errorData \<Rightarrow>
                       (case get_message errorData of
                          Inl err \<Rightarrow> Inl err
                        | Inr m \<Rightarrow> Inr (Failure (or_fallback m))))
                else Inr Success)))"

text \<open>The \<^verbatim>\<open>try\<close>, \<^verbatim>\<open>catch\<close> and \<^verbatim>\<open>finally\<close> of \<^verbatim>\<open>handleSubmit\<close>.\<close>

definition attempt :: "env \<Rightarrow> backend \<Rightarrow> formData \<Rightarrow> effect list" where
  "attempt e server d =
     (case submitRegistration e server d of
        (es, Inr Success) \<Rightarrow> es @ [Navigate ''/login'']
      | (es, Inr (Failure m)) \<Rightarrow> es @ [SetError m]
      | (es, Inl err) \<Rightarrow>
          es @ [SetError (JString ''Registration failed. Please try again later.''),
                ConsoleError ''[Register] Network or server error:'' err])
     @ [SetLoading False]"

text \<open>
  \<^verbatim>\<open>handleSubmit\<close>, from the form state of the render it belongs to. An exception of
  \<^verbatim>\<open>validateForm\<close> is outside the \<^verbatim>\<open>try\<close> and leaves the handler. \<^verbatim>\<open>e.preventDefault()\<close>
  only stops the browser from sending the form itself and is not among the effects.
\<close>

definition handleSubmit :: "env \<Rightarrow> backend \<Rightarrow> formData \<Rightarrow> exn + effect list" where
  "handleSubmit e server d =
     (case validateForm d of
        Inl err \<Rightarrow> Inl err
      | Inr errs \<Rightarrow>
          Inr (SetFormErrors errs #
               (if length errs > 0 then []
                else [SetLoading True, SetError (JString [])] @ attempt e server d)))"

subsection \<open>The state of the component\<close>

record state =
  formData :: formData
  showPassword :: bool
  showConfirmPassword :: bool
  error :: json
  formErrors :: errors
  loading :: bool

definition initial :: state where
  "initial =
     \<lparr>formData = (\<lambda>k. JUndefined)
        (''fullName'' := JStr [], ''email'' := JStr [], ''phone'' := JStr [],
         ''password'' := JStr [], ''confirmPassword'' := JStr [],
         ''agreeToTerms'' := JBool False),
      showPassword = False, showConfirmPassword = False,
      error = JString [], formErrors = [], loading = False\<rparr>"

fun perform :: "state \<Rightarrow> effect \<Rightarrow> state" where
  "perform s (SetFormErrors errs) = s\<lparr>formErrors := errs\<rparr>"
| "perform s (SetLoading b) = s\<lparr>loading := b\<rparr>"
| "perform s (SetError m) = s\<lparr>error := m\<rparr>"
| "perform s (Fetch r) = s"
| "perform s (Navigate p) = s"
| "perform s (ConsoleError l err) = s"

text \<open>The state after a submit; an exception that leaves the handler changes nothing.\<close>

definition submit :: "env \<Rightarrow> backend \<Rightarrow> state \<Rightarrow> state" where
  "submit e server s =
     (case handleSubmit e server (formData s) of
        Inl err \<Rightarrow> s
      | Inr effects \<Rightarrow> foldl perform s effects)"

text \<open>The requests among the effects.\<close>

fun requests :: "effect list \<Rightarrow> request list" where
  "requests [] = []"
| "requests (Fetch r # es) = r # requests es"
| "requests (x # es) = requests es"

text \<open>The navigations among the effects.\<close>

fun navigations :: "effect list \<Rightarrow> string list" where
  "navigations [] = []"
| "navigations (Navigate p # es) = p # navigations es"
| "navigations (x # es) = navigations es"

text \<open>
  \<^verbatim>\<open>handleInputChange\<close>, with the \<^verbatim>\<open>name\<close>, \<^verbatim>\<open>value\<close>, \<^verbatim>\<open>type\<close> and \<^verbatim>\<open>checked\<close> of the event's
  target.
\<close>

record target =
  target_name :: string
  target_value :: string
  target_type :: string
  target_checked :: bool

definition handleInputChange :: "target \<Rightarrow> state \<Rightarrow> state" where
  "handleInputChange t s =
     s\<lparr>formData := (formData s)
         (target_name t :=
            (if target_type t = ''checkbox'' then JBool (target_checked t)
             else JStr (target_value t)))\<rparr>"

text \<open>
  The inputs that the component renders, by name and type; a password field is of type
  \<^verbatim>\<open>text\<close> while it is shown.
\<close>

definition inputs :: "state \<Rightarrow> (string \<times> string) list" where
  "inputs s =
     [(''fullName'', ''text''), (''email'', ''email''), (''phone'', ''tel''),
      (''password'', if showPassword s then ''text'' else ''password''),
      (''confirmPassword'', if showConfirmPassword s then ''text'' else ''password''),
      (''agreeToTerms'', ''checkbox'')]"

text \<open>
  A form state as the inputs make it: a string in each text field and a boolean in the
  checkbox.
\<close>

definition is_string :: "jsval \<Rightarrow> bool" where
  "is_string v = (case v of JStr s \<Rightarrow> True | _ \<Rightarrow> False)"

definition is_boolean :: "jsval \<Rightarrow> bool" where
  "is_boolean v = (case v of JBool b \<Rightarrow> True | _ \<Rightarrow> False)"

definition typed :: "formData \<Rightarrow> bool" where
  "typed d =
     (is_string (d ''fullName'') \<and> is_string (d ''email'') \<and> is_string (d ''phone'') \<and>
      is_string (d ''password'') \<and> is_string (d ''confirmPassword'') \<and>
      is_boolean (d ''agreeToTerms''))"

text \<open>The requests that one submit issues.\<close>

definition sent :: "env \<Rightarrow> backend \<Rightarrow> formData \<Rightarrow> request list" where
  "sent e server d = (case handleSubmit e server d of Inl err \<Rightarrow> [] | Inr effects \<Rightarrow> requests effects)"

text \<open>
  The error map in the specification's words: one entry for each field of the rule set that
  fails validation against the form state, with the message of its first failing check.
\<close>

definition failures :: "formData \<Rightarrow> errors" where
  "failures d =
     map (\<lambda>f. (f, JStr (first_failure f (d f) d)))
       (filter (\<lambda>f. first_failure f (d f) d \<noteq> []) (map fst validationRules))"

subsection \<open>The scenarios of the specification\<close>

text \<open>Scenario A, the form with every field valid.\<close>

definition scenario_A :: formData where
  "scenario_A =
     (\<lambda>k. JUndefined)
       (''fullName'' := JStr ''Jane Doe'', ''email'' := JStr ''jane@example.com'',
        ''phone'' := JStr ''0771234567'', ''password'' := JStr ''password123'',
        ''confirmPassword'' := JStr ''password123'', ''agreeToTerms'' := JBool True)"

text \<open>An environment with nothing set, and one with the API base URL only.\<close>

definition unconfigured :: env where
  "unconfigured = (\<lambda>k. None)"

definition configured :: env where
  "configured = unconfigured(''REACT_APP_API_BASE_URL'' \<mapsto> ''https://api.example.com'')"

text \<open>A backend that answers every request in the same way.\<close>

definition replying :: "fetch_result \<Rightarrow> backend" where
  "replying answer = (\<lambda>r. answer)"

text \<open>The component with a given form state, otherwise as it starts.\<close>

definition filled :: "formData \<Rightarrow> state" where
  "filled d = initial\<lparr>formData := d\<rparr>"

section \<open>The matcher decides the words of an expression\<close>

lemma accepts_empty_words: "accepts_empty r \<longleftrightarrow> [] \<in> words r"
  by (induction r) (auto simp: concat_words_def intro: repeat_words.none)

lemma repeat_words_step:
  "c # w \<in> repeat_words A \<longleftrightarrow> (\<exists>u v. w = u @ v \<and> c # u \<in> A \<and> v \<in> repeat_words A)"
proof
  assume "c # w \<in> repeat_words A"
  then show "\<exists>u v. w = u @ v \<and> c # u \<in> A \<and> v \<in> repeat_words A"
  proof (induction "c # w" arbitrary: w rule: repeat_words.induct)
    case (more u v)
    show ?case
    proof (cases u)
      case Nil
      with more show ?thesis by simp
    next
      case (Cons a u')
      with more show ?thesis by auto
    qed
  qed
next
  assume "\<exists>u v. w = u @ v \<and> c # u \<in> A \<and> v \<in> repeat_words A"
  then obtain u v where "w = u @ v" "c # u \<in> A" "v \<in> repeat_words A" by blast
  then have "(c # u) @ v \<in> repeat_words A" by (intro repeat_words.more)
  with \<open>w = u @ v\<close> show "c # w \<in> repeat_words A" by simp
qed

lemma concat_words_step:
  "c # w \<in> concat_words A B \<longleftrightarrow>
     (\<exists>u v. w = u @ v \<and> c # u \<in> A \<and> v \<in> B) \<or> ([] \<in> A \<and> c # w \<in> B)"
proof
  assume "c # w \<in> concat_words A B"
  then obtain u v where uv: "c # w = u @ v" "u \<in> A" "v \<in> B"
    unfolding concat_words_def by blast
  show "(\<exists>u v. w = u @ v \<and> c # u \<in> A \<and> v \<in> B) \<or> ([] \<in> A \<and> c # w \<in> B)"
  proof (cases u)
    case Nil
    with uv show ?thesis by simp
  next
    case (Cons a u')
    with uv have "w = u' @ v" "c # u' \<in> A" by simp_all
    with uv(3) show ?thesis by blast
  qed
next
  assume "(\<exists>u v. w = u @ v \<and> c # u \<in> A \<and> v \<in> B) \<or> ([] \<in> A \<and> c # w \<in> B)"
  then show "c # w \<in> concat_words A B"
  proof
    assume "\<exists>u v. w = u @ v \<and> c # u \<in> A \<and> v \<in> B"
    then obtain u v where "w = u @ v" "c # u \<in> A" "v \<in> B" by blast
    then have "c # w = (c # u) @ v \<and> c # u \<in> A \<and> v \<in> B" by simp
    then show ?thesis unfolding concat_words_def by blast
  next
    assume "[] \<in> A \<and> c # w \<in> B"
    then have "c # w = [] @ (c # w) \<and> [] \<in> A \<and> c # w \<in> B" by simp
    then show ?thesis unfolding concat_words_def by blast
  qed
qed

lemma after_words: "w \<in> words (after c r) \<longleftrightarrow> c # w \<in> words r"
proof (induction r arbitrary: w)
  case (Seq r s)
  have "w \<in> concat_words (words (after c r)) (words s) \<longleftrightarrow>
        (\<exists>u v. w = u @ v \<and> c # u \<in> words r \<and> v \<in> words s)"
    unfolding concat_words_def using Seq.IH(1) by blast
  with Seq.IH(2) show ?case
    by (simp add: concat_words_step accepts_empty_words)
next
  case (Many r)
  have "w \<in> concat_words (words (after c r)) (repeat_words (words r)) \<longleftrightarrow>
        (\<exists>u v. w = u @ v \<and> c # u \<in> words r \<and> v \<in> repeat_words (words r))"
    unfolding concat_words_def using Many.IH by blast
  then show ?case
    by (simp add: repeat_words_step)
qed auto

lemma regex_test_words: "regex_test r w \<longleftrightarrow> w \<in> words r"
  by (induction w arbitrary: r) (simp_all add: accepts_empty_words after_words)

lemma words_exactly_Class:
  "w \<in> words (exactly n (Class p)) \<longleftrightarrow> length w = n \<and> list_all p w"
proof (induction n arbitrary: w)
  case 0
  then show ?case by auto
next
  case (Suc n)
  show ?case
  proof (cases w)
    case Nil
    then show ?thesis by (simp add: concat_words_def)
  next
    case (Cons a w')
    have "a # w' \<in> words (exactly (Suc n) (Class p)) \<longleftrightarrow> p a \<and> w' \<in> words (exactly n (Class p))"
      by (auto simp: concat_words_step)
    with Cons show ?thesis using Suc[of w'] by auto
  qed
qed

lemma phone_pattern_iff: "regex_test phone_pattern w \<longleftrightarrow> length w = 10 \<and> list_all is_digit w"
  by (simp add: regex_test_words phone_pattern_def words_exactly_Class)

section \<open>Validation of a field\<close>

lemma rule_names: "map fst validationRules = [''fullName'', ''email'', ''phone'', ''password'', ''confirmPassword'', ''agreeToTerms'']"
  by (simp add: validationRules_def)

lemma no_rule: "f \<notin> set (map fst validationRules) \<Longrightarrow> map_of validationRules f = None"
  by (simp add: map_of_eq_None_iff)

lemma truthy_iff: "truthy v = (\<not> empty_or_falsy v)"
  by (cases v) (auto simp: empty_or_falsy_def)

lemma below_iff:
  "truthy v \<Longrightarrow> minLength r \<noteq> Some 0 \<Longrightarrow> below_minLength r v =
     Inr (case minLength r of None \<Rightarrow> False | Some n \<Rightarrow> length_below v n)"
  by (cases v) (auto simp: below_minLength_def length_below_def split: option.splits)

lemma validateField_rule:
  assumes look: "map_of validationRules f = Some r"
    and req: "required r" "map_of (messages r) ''required'' \<noteq> None"
    and len: "minLength r = None \<or> (minLength r \<noteq> Some 0 \<and> map_of (messages r) ''minLength'' \<noteq> None)"
    and pat: "pattern r = None \<or> map_of (messages r) ''pattern'' \<noteq> None"
    and mis: "f \<noteq> ''confirmPassword'' \<or> map_of (messages r) ''mismatch'' \<noteq> None"
  shows "validateField f v fd = Inr (JStr (first_failure f v fd))"
proof (cases "truthy v")
  case False
  with look req show ?thesis
    by (auto simp: validateField_def first_failure_def truthy_iff message_def message_text_def)
next
  case True
  from len have nz: "minLength r \<noteq> Some 0" by auto
  have b: "below_minLength r v = Inr (case minLength r of None \<Rightarrow> False | Some n \<Rightarrow> length_below v n)"
    using True nz by (rule below_iff)
  have e: "\<not> empty_or_falsy v" using True by (simp add: truthy_iff)
  show ?thesis
  proof (cases "case minLength r of None \<Rightarrow> False | Some n \<Rightarrow> length_below v n")
    case True
    with len have "map_of (messages r) ''minLength'' \<noteq> None" by (auto split: option.splits)
    with True look e \<open>truthy v\<close> b show ?thesis
      by (auto simp: validateField_def first_failure_def message_def message_text_def)
  next
    case False
    note nb = this
    show ?thesis
    proof (cases "fails_pattern r v")
      case True
      with pat have "map_of (messages r) ''pattern'' \<noteq> None" by (auto simp: fails_pattern_def)
      with True nb look e \<open>truthy v\<close> b show ?thesis
        by (auto simp: validateField_def first_failure_def message_def message_text_def fails_pattern_def)
    next
      case False
      with nb look e \<open>truthy v\<close> b mis show ?thesis
        by (auto simp: validateField_def first_failure_def message_def message_text_def fails_pattern_def)
    qed
  qed
qed

lemma rules_complete:
  assumes "(f, r) \<in> set validationRules"
  shows "required r" "map_of (messages r) ''required'' \<noteq> None"
    "minLength r = None \<or> (minLength r \<noteq> Some 0 \<and> map_of (messages r) ''minLength'' \<noteq> None)"
    "pattern r = None \<or> map_of (messages r) ''pattern'' \<noteq> None"
    "f \<noteq> ''confirmPassword'' \<or> map_of (messages r) ''mismatch'' \<noteq> None"
  using assms unfolding validationRules_def by auto

lemma validateField_refines: "validateField f v fd = Inr (JStr (first_failure f v fd))"
proof (cases "map_of validationRules f")
  case None
  then show ?thesis by (simp add: validateField_def first_failure_def)
next
  case (Some r)
  then have "(f, r) \<in> set validationRules" by (rule map_of_SomeD)
  from validateField_rule[OF Some rules_complete[OF this]] show ?thesis .
qed

text \<open>
  Claim C1. For every field name and every value, \<^const>\<open>validateField\<close> returns the message
  of the first failing check, in the fixed order: the required message when the rule is
  required and the value is empty or falsy; else the minimum-length message when a minimum
  length is configured and the length of the value is below it; else the pattern message
  when a pattern is configured and the value does not match it; else, for
  \<^verbatim>\<open>confirmPassword\<close> only, the mismatch message when the value differs from the current
  password; else no error (the empty string). This cascade is \<^const>\<open>first_failure\<close>. It never
  throws and never returns \<^verbatim>\<open>undefined\<close>. For a field name that is not in the rule set it
  returns no error.
\<close>

theorem validateField_first_failure:
  "validateField f v fd = Inr (JStr (first_failure f v fd)) \<and>
   (f \<notin> set (map fst validationRules) \<longrightarrow> validateField f v fd = Inr (JStr []))"
proof
  show "validateField f v fd = Inr (JStr (first_failure f v fd))"
    by (rule validateField_refines)
  show "f \<notin> set (map fst validationRules) \<longrightarrow> validateField f v fd = Inr (JStr [])"
    by (simp add: validateField_def no_rule)
qed

theorem validateField_first_failure_witness:
  "validateField ''fullName'' (JStr ''A'') (\<lambda>k. JUndefined) =
     Inr (JStr ''Full name must be at least 2 characters'') \<and>
   ''nickname'' \<notin> set (map fst validationRules) \<and>
   validateField ''nickname'' (JStr ''A'') (\<lambda>k. JUndefined) = Inr (JStr [])"
  using validateField_first_failure [of "''fullName''" "JStr ''A''" "\<lambda>k. JUndefined"]
    validateField_first_failure [of "''nickname''" "JStr ''A''" "\<lambda>k. JUndefined"]
  by (simp add: first_failure_def validationRules_def empty_or_falsy_def length_below_def
      message_text_def)

lemma first_failure_phone:
  "first_failure ''phone'' (JStr s) fd =
     (if s = [] then ''Phone number is required''
      else if length s = 10 \<and> list_all is_digit s then []
      else ''Phone number must be exactly 10 digits'')"
  by (simp add: first_failure_def validationRules_def empty_or_falsy_def message_text_def
      phone_pattern_iff)

text \<open>
  Claim C8. The phone field accepts exactly the strings of ten digits: a non-empty string
  passes if and only if it has length 10 and consists of the digits 0 to 9. So "12345" and
  "12345678901" give the pattern error and "1234567890" gives no error.
\<close>

theorem phone_exactly_ten_digits:
  "validateField ''phone'' (JStr s) fd =
     Inr (JStr (if s = [] then ''Phone number is required''
                else if length s = 10 \<and> list_all is_digit s then []
                else ''Phone number must be exactly 10 digits'')) \<and>
   validateField ''phone'' (JStr ''12345'') fd =
     Inr (JStr ''Phone number must be exactly 10 digits'') \<and>
   validateField ''phone'' (JStr ''1234567890'') fd = Inr (JStr []) \<and>
   validateField ''phone'' (JStr ''12345678901'') fd =
     Inr (JStr ''Phone number must be exactly 10 digits'')"
  by (simp add: validateField_refines first_failure_phone is_digit_def code_def)

theorem phone_exactly_ten_digits_witness:
  "validateField ''phone'' (JStr ''0771234567'') (\<lambda>k. JUndefined) = Inr (JStr []) \<and>
   validateField ''phone'' (JStr ''077123456x'') (\<lambda>k. JUndefined) =
     Inr (JStr ''Phone number must be exactly 10 digits'')"
  using phone_exactly_ten_digits [of "''0771234567''" "\<lambda>k. JUndefined"]
    phone_exactly_ten_digits [of "''077123456x''" "\<lambda>k. JUndefined"]
  by (simp add: is_digit_def code_def)

section \<open>Validation of the form\<close>

lemma update_fresh: "k \<notin> fst ` set al \<Longrightarrow> AList.update k v al = al @ [(k, v)]"
  by (induction al) auto

lemma validate_each_closed:
  "distinct fs \<Longrightarrow> set fs \<inter> fst ` set errs = {} \<Longrightarrow>
   validate_each fs d errs =
     Inr (errs @ map (\<lambda>f. (f, JStr (first_failure f (d f) d)))
                  (filter (\<lambda>f. first_failure f (d f) d \<noteq> []) fs))"
proof (induction fs arbitrary: errs)
  case Nil
  then show ?case by simp
next
  case (Cons f fs)
  let ?m = "first_failure f (d f) d"
  show ?case
  proof (cases "?m = []")
    case True
    with Cons.prems Cons.IH[of errs] show ?thesis
      by (simp add: validateField_refines)
  next
    case False
    from Cons.prems have fresh: "f \<notin> fst ` set errs" by auto
    have "set fs \<inter> fst ` set (errs @ [(f, JStr ?m)]) = {}"
      using Cons.prems by auto
    with Cons.prems Cons.IH[of "errs @ [(f, JStr ?m)]"] False fresh show ?thesis
      by (simp add: validateField_refines update_fresh)
  qed
qed

lemma validateForm_failures: "validateForm d = Inr (failures d)"
  unfolding validateForm_def failures_def
  using validate_each_closed[of "map fst validationRules" "[]" d]
  by (simp add: rule_names)

lemma map_of_tabulate:
  "map_of (map (\<lambda>f. (f, g f)) (filter P fs)) f = (if f \<in> set fs \<and> P f then Some (g f) else None)"
  by (induction fs) auto

lemma first_failure_no_rule: "f \<notin> set (map fst validationRules) \<Longrightarrow> first_failure f v d = []"
  by (simp add: first_failure_def no_rule)

lemma map_of_failures:
  "map_of (failures d) f =
     (if first_failure f (d f) d = [] then None else Some (JStr (first_failure f (d f) d)))"
  unfolding failures_def map_of_tabulate
  using first_failure_no_rule[of f "d f" d] by auto

lemma scenario_A_patterns:
  "regex_test fullName_pattern ''Jane Doe''"
  "regex_test email_pattern ''jane@example.com''"
  "regex_test phone_pattern ''0771234567''"
proof -
  show "regex_test fullName_pattern ''Jane Doe''"
    by (simp add: fullName_pattern_def one_or_more_def is_letter_def is_space_def code_def)
  show "regex_test email_pattern ''jane@example.com''"
    by (simp add: email_pattern_def email_part_def one_or_more_def is_space_def code_def)
  show "regex_test phone_pattern ''0771234567''"
    unfolding phone_pattern_iff by (simp add: is_digit_def code_def)
qed

lemma scenario_A_valid: "validateForm scenario_A = Inr []"
  unfolding validateForm_failures failures_def
  by (simp add: rule_names scenario_A_def first_failure_def validationRules_def empty_or_falsy_def
      length_below_def message_text_def scenario_A_patterns del: regex_test.simps)

lemma initial_invalid:
  "validateForm (formData initial) =
     Inr [(''fullName'', JStr ''Full name is required''),
          (''email'', JStr ''Email is required''),
          (''phone'', JStr ''Phone number is required''),
          (''password'', JStr ''Password is required''),
          (''confirmPassword'', JStr ''Please confirm your password''),
          (''agreeToTerms'', JStr ''You must agree to the Terms & Conditions'')]"
  unfolding validateForm_failures failures_def
  by (simp add: rule_names initial_def first_failure_def validationRules_def empty_or_falsy_def
      message_text_def)

section \<open>Submission\<close>

lemma handleSubmit_valid:
  "validateForm d = Inr [] \<Longrightarrow>
   handleSubmit e server d =
     Inr (SetFormErrors [] # SetLoading True # SetError (JString []) # attempt e server d)"
  by (simp add: handleSubmit_def)

lemma handleSubmit_invalid:
  "validateForm d = Inr errs \<Longrightarrow> errs \<noteq> [] \<Longrightarrow>
   handleSubmit e server d = Inr [SetFormErrors errs]"
  by (simp add: handleSubmit_def)

lemma attempt_thrown:
  "snd (submitRegistration e server d) = Inl err \<Longrightarrow>
   attempt e server d =
     fst (submitRegistration e server d) @
     [SetError (JString ''Registration failed. Please try again later.''),
      ConsoleError ''[Register] Network or server error:'' err, SetLoading False]"
  by (cases "submitRegistration e server d") (simp add: attempt_def)

lemma attempt_success:
  "snd (submitRegistration e server d) = Inr Success \<Longrightarrow>
   attempt e server d =
     fst (submitRegistration e server d) @ [Navigate ''/login'', SetLoading False]"
  by (cases "submitRegistration e server d") (simp add: attempt_def)

lemma attempt_failure:
  "snd (submitRegistration e server d) = Inr (Failure m) \<Longrightarrow>
   attempt e server d =
     fst (submitRegistration e server d) @ [SetError m, SetLoading False]"
  by (cases "submitRegistration e server d") (simp add: attempt_def)

lemma submitRegistration_unconfigured:
  "getApiBaseUrl e = Inl m \<Longrightarrow> submitRegistration e server d = ([], Inl (Error m))"
  by (simp add: submitRegistration_def)

lemma submitRegistration_configured:
  "getApiBaseUrl e = Inr u \<Longrightarrow> fst (submitRegistration e server d) = [Fetch (registration_request u d)]"
  by (simp add: submitRegistration_def)

lemma submitRegistration_rejected:
  "getApiBaseUrl e = Inr u \<Longrightarrow> server (registration_request u d) = Rejected \<Longrightarrow>
   snd (submitRegistration e server d) = Inl FetchFailed"
  by (simp add: submitRegistration_def)

lemma submitRegistration_ok:
  "getApiBaseUrl e = Inr u \<Longrightarrow> server (registration_request u d) = Response status b \<Longrightarrow>
   ok status \<Longrightarrow> snd (submitRegistration e server d) = Inr Success"
  by (simp add: submitRegistration_def)

lemma submitRegistration_not_json:
  "getApiBaseUrl e = Inr u \<Longrightarrow> server (registration_request u d) = Response status NotJson \<Longrightarrow>
   \<not> ok status \<Longrightarrow> snd (submitRegistration e server d) = Inl SyntaxError"
  by (simp add: submitRegistration_def)

lemma submitRegistration_object:
  "getApiBaseUrl e = Inr u \<Longrightarrow>
   server (registration_request u d) = Response status (Json (JObject kvs)) \<Longrightarrow>
   \<not> ok status \<Longrightarrow>
   snd (submitRegistration e server d) = Inr (Failure (or_fallback (map_of kvs ''message'')))"
  by (simp add: submitRegistration_def)

lemma attempt_ends:
  "\<exists>es. attempt e server d = es @ [SetLoading False] \<and> SetLoading False \<notin> set es \<and>
        SetLoading True \<notin> set es \<and> (\<forall>errs. SetFormErrors errs \<notin> set es)"
proof (cases "snd (submitRegistration e server d)")
  case (Inl err)
  show ?thesis
  proof (cases "getApiBaseUrl e")
    case (Inl m)
    with attempt_thrown[OF \<open>snd (submitRegistration e server d) = Inl err\<close>]
    show ?thesis by (simp add: submitRegistration_unconfigured)
  next
    case (Inr u)
    with attempt_thrown[OF \<open>snd (submitRegistration e server d) = Inl err\<close>]
    show ?thesis by (simp add: submitRegistration_configured)
  qed
next
  case (Inr r)
  then obtain u where u: "getApiBaseUrl e = Inr u"
    by (cases "getApiBaseUrl e") (auto simp: submitRegistration_def)
  show ?thesis
  proof (cases r)
    case Success
    with Inr attempt_success[of e server d] u show ?thesis
      by (simp add: submitRegistration_configured)
  next
    case (Failure m)
    with Inr attempt_failure[of e server d m] u show ?thesis
      by (simp add: submitRegistration_configured)
  qed
qed

lemma perform_untouched:
  "SetLoading True \<notin> set es \<Longrightarrow> SetLoading False \<notin> set es \<Longrightarrow>
   loading (foldl perform s es) = loading s"
  "(\<forall>errs. SetFormErrors errs \<notin> set es) \<Longrightarrow> formErrors (foldl perform s es) = formErrors s"
proof (induction es arbitrary: s)
  case Nil
  { case 1 show ?case by simp }
  { case 2 show ?case by simp }
next
  case (Cons x es)
  { case 1 then show ?case using Cons.IH(1)[of "perform s x"] by (cases x) (auto split: if_splits) }
  { case 2 then show ?case using Cons.IH(2)[of "perform s x"] by (cases x) auto }
qed

lemma formErrors_submit: "formErrors (submit e server s) = failures (formData s)"
proof (cases "failures (formData s) = []")
  case True
  then have v: "validateForm (formData s) = Inr []" by (simp add: validateForm_failures)
  obtain es where es: "attempt e server (formData s) = es @ [SetLoading False]"
    "\<forall>errs. SetFormErrors errs \<notin> set es"
    using attempt_ends[of e server "formData s"] by blast
  have "formErrors (foldl perform (s\<lparr>formErrors := [], loading := True, error := JString []\<rparr>) es) = []"
    using perform_untouched(2)[OF es(2)] by simp
  with True show ?thesis
    by (simp add: submit_def handleSubmit_valid[OF v] es(1))
next
  case False
  have "validateForm (formData s) = Inr (failures (formData s))" by (rule validateForm_failures)
  from handleSubmit_invalid[OF this False] show ?thesis
    by (simp add: submit_def)
qed

lemma loading_submit:
  assumes "validateForm (formData s) = Inr []"
  shows "loading (submit e server s) = False"
proof -
  obtain es where es: "attempt e server (formData s) = es @ [SetLoading False]"
    using attempt_ends[of e server "formData s"] by blast
  show ?thesis
    by (simp add: submit_def handleSubmit_valid[OF assms] es)
qed

lemma configured_url: "getApiBaseUrl configured = Inr ''https://api.example.com''"
  by (simp add: getApiBaseUrl_def configured_def unconfigured_def)

lemma unconfigured_url:
  "getApiBaseUrl unconfigured = Inl ''REACT_APP_API_BASE_URL environment variable is required''"
  by (simp add: getApiBaseUrl_def unconfigured_def)

lemma sent_valid:
  assumes "validateForm d = Inr []"
  shows "sent e server d = requests (attempt e server d)"
  by (simp add: sent_def handleSubmit_valid[OF assms])

lemma requests_attempt:
  "requests (attempt e server d) =
     (case getApiBaseUrl e of Inl m \<Rightarrow> [] | Inr u \<Rightarrow> [registration_request u d])"
proof (cases "getApiBaseUrl e")
  case (Inl m)
  then show ?thesis
    by (simp add: attempt_def submitRegistration_unconfigured)
next
  case (Inr u)
  have f: "fst (submitRegistration e server d) = [Fetch (registration_request u d)]"
    using Inr by (rule submitRegistration_configured)
  show ?thesis
  proof (cases "snd (submitRegistration e server d)")
    case (Inl err)
    from attempt_thrown[OF this] Inr f show ?thesis by simp
  next
    case (Inr r)
    show ?thesis
    proof (cases r)
      case Success
      with Inr attempt_success[of e server d] f \<open>getApiBaseUrl e = Inr u\<close> show ?thesis by simp
    next
      case (Failure m)
      with Inr attempt_failure[of e server d m] f \<open>getApiBaseUrl e = Inr u\<close> show ?thesis by simp
    qed
  qed
qed

lemma sent_invalid:
  assumes "validateForm d \<noteq> Inr []"
  shows "handleSubmit e server d = Inr [SetFormErrors (failures d)]" "sent e server d = []"
proof -
  from assms have ne: "failures d \<noteq> []" by (simp add: validateForm_failures)
  show h: "handleSubmit e server d = Inr [SetFormErrors (failures d)]"
    using handleSubmit_invalid[OF validateForm_failures ne] .
  show "sent e server d = []" by (simp add: sent_def h)
qed

lemma handleSubmit_thrown:
  assumes "validateForm d = Inr []" and "snd (submitRegistration e server d) = Inl err"
  shows "handleSubmit e server d =
     Inr ([SetFormErrors [], SetLoading True, SetError (JString [])] @
          fst (submitRegistration e server d) @
          [SetError (JString ''Registration failed. Please try again later.''),
           ConsoleError ''[Register] Network or server error:'' err, SetLoading False])"
  by (simp add: handleSubmit_valid[OF assms(1)] attempt_thrown[OF assms(2)])

lemma handleSubmit_success:
  assumes "validateForm d = Inr []" and "getApiBaseUrl e = Inr u"
    and "server (registration_request u d) = Response status b" and "ok status"
  shows "handleSubmit e server d =
     Inr [SetFormErrors [], SetLoading True, SetError (JString []),
          Fetch (registration_request u d), Navigate ''/login'', SetLoading False]"
  using attempt_success[OF submitRegistration_ok[where server = server, OF assms(2) assms(3) assms(4)]]
  by (simp add: handleSubmit_valid[OF assms(1)] submitRegistration_configured[OF assms(2)])

lemma handleSubmit_rejection:
  assumes "validateForm d = Inr []" and "getApiBaseUrl e = Inr u"
    and "server (registration_request u d) = Response status (Json (JObject kvs))"
    and "\<not> ok status"
  shows "handleSubmit e server d =
     Inr [SetFormErrors [], SetLoading True, SetError (JString []),
          Fetch (registration_request u d),
          SetError (or_fallback (map_of kvs ''message'')), SetLoading False]"
  using attempt_failure[OF submitRegistration_object[where server = server, OF assms(2) assms(3) assms(4)]]
  by (simp add: handleSubmit_valid[OF assms(1)] submitRegistration_configured[OF assms(2)])

lemma or_fallback_cases:
  "or_fallback m =
     (case m of None \<Rightarrow> JString ''Registration failed''
      | Some j \<Rightarrow> if json_truthy j then j else JString ''Registration failed'')"
  by (cases m) simp_all

lemma error_submit_thrown:
  assumes "validateForm (formData s) = Inr []"
    and "snd (submitRegistration e server (formData s)) = Inl err"
  shows "error (submit e server s) = JString ''Registration failed. Please try again later.''"
proof (cases "getApiBaseUrl e")
  case (Inl m)
  then show ?thesis
    by (simp add: submit_def handleSubmit_thrown[OF assms] submitRegistration_unconfigured)
next
  case (Inr u)
  then show ?thesis
    by (simp add: submit_def handleSubmit_thrown[OF assms] submitRegistration_configured)
qed

lemma error_submit_rejection:
  assumes "validateForm (formData s) = Inr []" and "getApiBaseUrl e = Inr u"
    and "server (registration_request u (formData s)) = Response status (Json (JObject kvs))"
    and "\<not> ok status"
  shows "error (submit e server s) = or_fallback (map_of kvs ''message'')"
  by (simp add: submit_def handleSubmit_rejection[where server = server, OF assms])

lemma filled_formData: "formData (filled d) = d"
  by (simp add: filled_def)

lemma not_ok_examples: "\<not> ok 409" "\<not> ok 500" "ok 201"
  by (simp_all add: ok_def)

lemma handleSubmit_non2xx:
  assumes "validateForm d = Inr []" and "getApiBaseUrl e = Inr u"
    and "server (registration_request u d) = Response status b" and "\<not> ok status"
  shows "handleSubmit e server d =
     Inr ([SetFormErrors [], SetLoading True, SetError (JString []),
           Fetch (registration_request u d)] @
          (case b of
             NotJson \<Rightarrow>
               [SetError (JString ''Registration failed. Please try again later.''),
                ConsoleError ''[Register] Network or server error:'' SyntaxError]
           | Json JNull \<Rightarrow>
               [SetError (JString ''Registration failed. Please try again later.''),
                ConsoleError ''[Register] Network or server error:'' TypeError]
           | Json (JObject kvs) \<Rightarrow>
               [SetError (case map_of kvs ''message'' of
                            None \<Rightarrow> JString ''Registration failed''
                          | Some m \<Rightarrow> if json_truthy m then m
                                      else JString ''Registration failed'')]
           | Json other \<Rightarrow> [SetError (JString ''Registration failed'')]) @
          [SetLoading False])"
proof -
  have sr: "submitRegistration e server d =
      ([Fetch (registration_request u d)],
       (case b of
          NotJson \<Rightarrow> Inl SyntaxError
        | Json errorData \<Rightarrow>
            (case get_message errorData of
               Inl err \<Rightarrow> Inl err
             | Inr m \<Rightarrow> Inr (Failure (or_fallback m)))))"
    using assms(2) assms(3) assms(4) by (simp add: submitRegistration_def)
  show ?thesis
  proof (cases b)
    case NotJson
    with sr show ?thesis
      by (simp add: handleSubmit_valid[OF assms(1)] attempt_def)
  next
    case (Json j)
    with sr show ?thesis
      by (cases j) (simp_all add: handleSubmit_valid[OF assms(1)] attempt_def or_fallback_cases)
  qed
qed

lemma navigations_non2xx:
  assumes "validateForm d = Inr []" and "getApiBaseUrl e = Inr u"
    and "server (registration_request u d) = Response status b" and "\<not> ok status"
  shows "\<exists>es. handleSubmit e server d = Inr es \<and> navigations es = []"
proof (cases b)
  case NotJson
  with handleSubmit_non2xx[where server = server, OF assms] show ?thesis by simp
next
  case (Json j)
  with handleSubmit_non2xx[where server = server, OF assms] show ?thesis
    by (cases j) simp_all
qed

text \<open>
  Claim C3. After a submit the field error map is exactly what \<^const>\<open>validateForm\<close> computes
  from the form state of that submit: it has an entry for a field if and only if
  \<^const>\<open>validateField\<close> gives a non-empty message for that field against that form state, and
  the entry is that message. The map is recomputed in full: whatever the error map held
  before the submit has no influence on it.
\<close>

theorem formErrors_recomputed:
  "Inr (formErrors (submit e server s)) = validateForm (formData s) \<and>
   map_of (formErrors (submit e server s)) f =
     (if validateField f (formData s f) (formData s) = Inr (JStr []) then None
      else Some (JStr (first_failure f (formData s f) (formData s)))) \<and>
   validateField f (formData s f) (formData s) =
     Inr (JStr (first_failure f (formData s f) (formData s))) \<and>
   formErrors (submit e server (s\<lparr>formErrors := old\<rparr>)) = formErrors (submit e server s)"
  by (simp add: formErrors_submit validateForm_failures map_of_failures validateField_refines)

theorem formErrors_recomputed_witness:
  "map_of (formErrors (submit configured (replying Rejected) initial)) ''email'' =
     Some (JStr ''Email is required'') \<and>
   map_of (formErrors (submit configured (replying Rejected) (filled scenario_A))) ''email'' = None"
  using formErrors_recomputed [of configured "replying Rejected" initial "''email''"]
    formErrors_recomputed [of configured "replying Rejected" "filled scenario_A" "''email''"]
  by (simp add: initial_def filled_def scenario_A_def first_failure_def validationRules_def
      empty_or_falsy_def message_text_def scenario_A_patterns del: regex_test.simps)

text \<open>
  Claim C2, as stated, fails: with no API base URL in the environment the form of scenario A
  passes validation with an empty error map, and yet no request is issued, because
  \<^const>\<open>getApiBaseUrl\<close> raises before \<^verbatim>\<open>fetch\<close> is called.
\<close>

theorem validation_passes_without_request:
  "validateForm scenario_A = Inr [] \<and>
   sent unconfigured (replying (Response 201 NotJson)) scenario_A = []"
  by (simp add: scenario_A_valid sent_valid requests_attempt unconfigured_url)

text \<open>
  Claim C2, amended. On submit, the submission is attempted (the handler goes on to
  \<^const>\<open>attempt\<close>, which calls \<^const>\<open>submitRegistration\<close>) if and only if validation of the
  current form state gives an empty error map; otherwise the handler only stores the error
  map. The network call is issued if and only if, in addition, the API base URL is
  configured, and then it is the one registration request. The all-empty initial form gives
  exactly the six required-field messages and no network call; the form of scenario A gives
  an empty error map and the submission is attempted.
\<close>

theorem submit_gated_by_validation:
  "(validateForm d = Inr [] \<longrightarrow>
      handleSubmit e server d =
        Inr (SetFormErrors [] # SetLoading True # SetError (JString []) # attempt e server d)) \<and>
   (validateForm d \<noteq> Inr [] \<longrightarrow> handleSubmit e server d = Inr [SetFormErrors (failures d)]) \<and>
   (sent e server d \<noteq> [] \<longleftrightarrow> validateForm d = Inr [] \<and> (\<exists>u. getApiBaseUrl e = Inr u)) \<and>
   (validateForm d = Inr [] \<and> getApiBaseUrl e = Inr u \<longrightarrow>
      sent e server d = [registration_request u d]) \<and>
   validateForm (formData initial) =
     Inr [(''fullName'', JStr ''Full name is required''),
          (''email'', JStr ''Email is required''),
          (''phone'', JStr ''Phone number is required''),
          (''password'', JStr ''Password is required''),
          (''confirmPassword'', JStr ''Please confirm your password''),
          (''agreeToTerms'', JStr ''You must agree to the Terms & Conditions'')] \<and>
   sent e server (formData initial) = [] \<and>
   validateForm scenario_A = Inr [] \<and>
   handleSubmit e server scenario_A =
     Inr (SetFormErrors [] # SetLoading True # SetError (JString []) # attempt e server scenario_A)"
proof (intro conjI impI)
  show "handleSubmit e server d =
      Inr (SetFormErrors [] # SetLoading True # SetError (JString []) # attempt e server d)"
    if "validateForm d = Inr []" using that by (rule handleSubmit_valid)
  show "handleSubmit e server d = Inr [SetFormErrors (failures d)]" if "validateForm d \<noteq> Inr []"
    using that by (rule sent_invalid(1))
  show "(sent e server d \<noteq> []) = (validateForm d = Inr [] \<and> (\<exists>u. getApiBaseUrl e = Inr u))"
  proof (cases "validateForm d = Inr []")
    case True
    then show ?thesis
      by (cases "getApiBaseUrl e") (simp_all add: sent_valid requests_attempt)
  next
    case False
    then show ?thesis by (simp add: sent_invalid(2))
  qed
  show "sent e server d = [registration_request u d]"
    if "validateForm d = Inr [] \<and> getApiBaseUrl e = Inr u"
    using that by (simp add: sent_valid requests_attempt)
  show "validateForm (formData initial) =
     Inr [(''fullName'', JStr ''Full name is required''),
          (''email'', JStr ''Email is required''),
          (''phone'', JStr ''Phone number is required''),
          (''password'', JStr ''Password is required''),
          (''confirmPassword'', JStr ''Please confirm your password''),
          (''agreeToTerms'', JStr ''You must agree to the Terms & Conditions'')]"
    by (rule initial_invalid)
  show "sent e server (formData initial) = []"
    by (rule sent_invalid(2)) (simp add: initial_invalid)
  show "validateForm scenario_A = Inr []" by (rule scenario_A_valid)
  show "handleSubmit e server scenario_A =
     Inr (SetFormErrors [] # SetLoading True # SetError (JString []) # attempt e server scenario_A)"
    using scenario_A_valid by (rule handleSubmit_valid)
qed

theorem submit_gated_by_validation_witness:
  "validateForm scenario_A = Inr [] \<and>
   getApiBaseUrl configured = Inr ''https://api.example.com'' \<and>
   sent configured (replying (Response 201 NotJson)) scenario_A =
     [registration_request ''https://api.example.com'' scenario_A] \<and>
   validateForm (formData initial) \<noteq> Inr [] \<and>
   handleSubmit configured (replying (Response 201 NotJson)) (formData initial) =
     Inr [SetFormErrors (failures (formData initial))]"
  using submit_gated_by_validation
    [of scenario_A configured "replying (Response 201 NotJson)" "''https://api.example.com''"]
    submit_gated_by_validation
    [of "formData initial" configured "replying (Response 201 NotJson)" "''https://api.example.com''"]
  by (simp add: configured_url)

text \<open>
  Claim C4, as stated, fails: a rejection whose body has a message field holding the empty
  string does not resolve to a failure carrying that exact message. The empty string is
  falsy, so \<^verbatim>\<open>errorData.message || "Registration failed"\<close> gives the fallback.
\<close>

theorem empty_message_replaced:
  "error (submit configured
            (replying (Response 409 (Json (JObject [(''message'', JString [])]))))
            (filled scenario_A)) = JString ''Registration failed'' \<and>
   error (submit configured
            (replying (Response 409 (Json (JObject [(''message'', JString [])]))))
            (filled scenario_A)) \<noteq> JString []"
proof -
  have "error (submit configured
            (replying (Response 409 (Json (JObject [(''message'', JString [])]))))
            (filled scenario_A)) = or_fallback (map_of [(''message'', JString [])] ''message'')"
    by (rule error_submit_rejection[where u = "''https://api.example.com''" and status = 409])
      (simp_all add: filled_formData scenario_A_valid configured_url replying_def not_ok_examples)
  then show ?thesis by simp
qed

text \<open>
  Claim C4, amended. For a form that passes validation: when the backend answers with a 2xx
  status, the submission succeeds and navigation to \<^verbatim>\<open>/login\<close> happens exactly once. When it
  answers with any other status, whatever the body, the submission fails and there is no
  navigation: the failure carries the message of the body when that message is truthy (a
  non-empty string, for example); it carries the fallback "Registration failed" when the
  body is JSON without a message field or with a falsy one, be it an object, an array, a
  string, a number or a boolean; and it carries "Registration failed. Please try again
  later." when the body cannot be read (it is not JSON, or it is \<^verbatim>\<open>null\<close>). On every path the
  effects end with the one \<^term>\<open>SetLoading False\<close> of the \<^verbatim>\<open>finally\<close> block, so the loading
  flag is cleared.
\<close>

theorem submit_resolution:
  assumes "validateForm d = Inr []"
  shows "(getApiBaseUrl e = Inr u \<and> server (registration_request u d) = Response status b \<and>
          ok status \<longrightarrow>
            handleSubmit e server d =
              Inr [SetFormErrors [], SetLoading True, SetError (JString []),
                   Fetch (registration_request u d), Navigate ''/login'', SetLoading False]) \<and>
         (getApiBaseUrl e = Inr u \<and>
          server (registration_request u d) = Response status (Json (JObject kvs)) \<and>
          \<not> ok status \<longrightarrow>
            handleSubmit e server d =
              Inr [SetFormErrors [], SetLoading True, SetError (JString []),
                   Fetch (registration_request u d),
                   SetError (case map_of kvs ''message'' of
                               None \<Rightarrow> JString ''Registration failed''
                             | Some m \<Rightarrow> if json_truthy m then m
                                         else JString ''Registration failed''),
                   SetLoading False]) \<and>
         (\<exists>es. handleSubmit e server d = Inr (es @ [SetLoading False]) \<and>
               SetLoading False \<notin> set es) \<and>
         loading (submit e server (s\<lparr>formData := d\<rparr>)) = False \<and>
         (getApiBaseUrl e = Inr u \<and> server (registration_request u d) = Response status b \<and>
          \<not> ok status \<longrightarrow>
            handleSubmit e server d =
              Inr ([SetFormErrors [], SetLoading True, SetError (JString []),
                    Fetch (registration_request u d)] @
                   (case b of
                      NotJson \<Rightarrow>
                        [SetError (JString ''Registration failed. Please try again later.''),
                         ConsoleError ''[Register] Network or server error:'' SyntaxError]
                    | Json JNull \<Rightarrow>
                        [SetError (JString ''Registration failed. Please try again later.''),
                         ConsoleError ''[Register] Network or server error:'' TypeError]
                    | Json (JObject kvs) \<Rightarrow>
                        [SetError (case map_of kvs ''message'' of
                                     None \<Rightarrow> JString ''Registration failed''
                                   | Some m \<Rightarrow> if json_truthy m then m
                                               else JString ''Registration failed'')]
                    | Json other \<Rightarrow> [SetError (JString ''Registration failed'')]) @
                   [SetLoading False])) \<and>
         (getApiBaseUrl e = Inr u \<and> server (registration_request u d) = Response status b \<and>
          \<not> ok status \<longrightarrow>
            (\<exists>es. handleSubmit e server d = Inr es \<and> navigations es = [])) \<and>
         (getApiBaseUrl e = Inr u \<and> server (registration_request u d) = Response status b \<and>
          ok status \<longrightarrow>
            (\<exists>es. handleSubmit e server d = Inr es \<and> navigations es = [''/login'']))"
proof -
  have a: "getApiBaseUrl e = Inr u \<and> server (registration_request u d) = Response status b \<and>
          ok status \<longrightarrow>
            handleSubmit e server d =
              Inr [SetFormErrors [], SetLoading True, SetError (JString []),
                   Fetch (registration_request u d), Navigate ''/login'', SetLoading False]"
    using handleSubmit_success[where server = server, OF assms] by blast
  have b: "getApiBaseUrl e = Inr u \<and>
          server (registration_request u d) = Response status (Json (JObject kvs)) \<and>
          \<not> ok status \<longrightarrow>
            handleSubmit e server d =
              Inr [SetFormErrors [], SetLoading True, SetError (JString []),
                   Fetch (registration_request u d),
                   SetError (case map_of kvs ''message'' of
                               None \<Rightarrow> JString ''Registration failed''
                             | Some m \<Rightarrow> if json_truthy m then m
                                         else JString ''Registration failed''),
                   SetLoading False]"
    using handleSubmit_rejection[OF assms, of e u server status kvs]
    by (simp add: or_fallback_cases)
  obtain es where es: "attempt e server d = es @ [SetLoading False]" "SetLoading False \<notin> set es"
    using attempt_ends[of e server d] by blast
  have "handleSubmit e server d =
      Inr ((SetFormErrors [] # SetLoading True # SetError (JString []) # es) @ [SetLoading False])"
    by (simp add: handleSubmit_valid[OF assms] es(1))
  moreover have "SetLoading False \<notin> set (SetFormErrors [] # SetLoading True # SetError (JString []) # es)"
    using es(2) by simp
  ultimately have c: "\<exists>es. handleSubmit e server d = Inr (es @ [SetLoading False]) \<and>
      SetLoading False \<notin> set es" by blast
  have l: "loading (submit e server (s\<lparr>formData := d\<rparr>)) = False"
    by (rule loading_submit) (simp add: assms)
  have f: "getApiBaseUrl e = Inr u \<and> server (registration_request u d) = Response status b \<and>
          \<not> ok status \<longrightarrow>
            handleSubmit e server d =
              Inr ([SetFormErrors [], SetLoading True, SetError (JString []),
                    Fetch (registration_request u d)] @
                   (case b of
                      NotJson \<Rightarrow>
                        [SetError (JString ''Registration failed. Please try again later.''),
                         ConsoleError ''[Register] Network or server error:'' SyntaxError]
                    | Json JNull \<Rightarrow>
                        [SetError (JString ''Registration failed. Please try again later.''),
                         ConsoleError ''[Register] Network or server error:'' TypeError]
                    | Json (JObject kvs) \<Rightarrow>
                        [SetError (case map_of kvs ''message'' of
                                     None \<Rightarrow> JString ''Registration failed''
                                   | Some m \<Rightarrow> if json_truthy m then m
                                               else JString ''Registration failed'')]
                    | Json other \<Rightarrow> [SetError (JString ''Registration failed'')]) @
                   [SetLoading False])"
    using handleSubmit_non2xx[where server = server, OF assms] by blast
  have n: "getApiBaseUrl e = Inr u \<and> server (registration_request u d) = Response status b \<and>
          \<not> ok status \<longrightarrow>
            (\<exists>es. handleSubmit e server d = Inr es \<and> navigations es = [])"
    using navigations_non2xx[where server = server, OF assms] by blast
  have g: "getApiBaseUrl e = Inr u \<and> server (registration_request u d) = Response status b \<and>
          ok status \<longrightarrow>
            (\<exists>es. handleSubmit e server d = Inr es \<and> navigations es = [''/login''])"
    using a by auto
  from a b c l f n g show ?thesis by (intro conjI)
qed

theorem submit_resolution_witness:
  "validateForm scenario_A = Inr [] \<and>
   handleSubmit configured (replying (Response 201 NotJson)) scenario_A =
     Inr [SetFormErrors [], SetLoading True, SetError (JString []),
          Fetch (registration_request ''https://api.example.com'' scenario_A),
          Navigate ''/login'', SetLoading False] \<and>
   handleSubmit configured
     (replying (Response 409 (Json (JObject [(''message'', JString ''Email already registered'')]))))
     scenario_A =
     Inr [SetFormErrors [], SetLoading True, SetError (JString []),
          Fetch (registration_request ''https://api.example.com'' scenario_A),
          SetError (JString ''Email already registered''), SetLoading False] \<and>
   handleSubmit configured (replying (Response 500 (Json (JArray [])))) scenario_A =
     Inr [SetFormErrors [], SetLoading True, SetError (JString []),
          Fetch (registration_request ''https://api.example.com'' scenario_A),
          SetError (JString ''Registration failed''), SetLoading False] \<and>
   (\<exists>es. handleSubmit configured (replying (Response 500 (Json (JArray [])))) scenario_A = Inr es \<and>
         navigations es = [])"
  using scenario_A_valid
    submit_resolution [OF scenario_A_valid, of configured "''https://api.example.com''"
      "replying (Response 201 NotJson)" 201 NotJson]
    submit_resolution [OF scenario_A_valid, of configured "''https://api.example.com''"
      "replying (Response 409 (Json (JObject [(''message'', JString ''Email already registered'')])))"
      409 _ "[(''message'', JString ''Email already registered'')]"]
    submit_resolution [OF scenario_A_valid, of configured "''https://api.example.com''"
      "replying (Response 500 (Json (JArray [])))" 500 "Json (JArray [])"]
  by (simp add: configured_url replying_def ok_def)

section \<open>The request\<close>

text \<open>
  The form state stays typed: it starts typed, and a change event from one of the rendered
  inputs keeps it so.
\<close>

lemma typed_initial: "typed (formData initial)"
  by (simp add: typed_def initial_def is_string_def is_boolean_def)

lemma typed_handleInputChange:
  assumes "typed (formData s)" and "(target_name t, target_type t) \<in> set (inputs s)"
  shows "typed (formData (handleInputChange t s))"
proof -
  have names: "target_name t \<in> set (map fst (inputs s))"
    using assms(2) by (metis fst_conv image_eqI set_map)
  have box: "target_type t = ''checkbox'' \<longleftrightarrow> target_name t = ''agreeToTerms''"
    using assms(2) by (cases "showPassword s"; cases "showConfirmPassword s") (auto simp: inputs_def)
  from names consider
      "target_name t = ''fullName''" | "target_name t = ''email''" | "target_name t = ''phone''"
    | "target_name t = ''password''" | "target_name t = ''confirmPassword''"
    | "target_name t = ''agreeToTerms''"
    by (auto simp: inputs_def)
  then show ?thesis
  proof cases
    case 1
    with box assms(1) show ?thesis
      by (simp add: typed_def handleInputChange_def is_string_def is_boolean_def)
  next
    case 2
    with box assms(1) show ?thesis
      by (simp add: typed_def handleInputChange_def is_string_def is_boolean_def)
  next
    case 3
    with box assms(1) show ?thesis
      by (simp add: typed_def handleInputChange_def is_string_def is_boolean_def)
  next
    case 4
    with box assms(1) show ?thesis
      by (simp add: typed_def handleInputChange_def is_string_def is_boolean_def)
  next
    case 5
    with box assms(1) show ?thesis
      by (simp add: typed_def handleInputChange_def is_string_def is_boolean_def)
  next
    case 6
    with box assms(1) show ?thesis
      by (simp add: typed_def handleInputChange_def is_string_def is_boolean_def)
  qed
qed

lemma typed_strings:
  assumes "typed d"
  shows "\<exists>a b c p. d ''fullName'' = JStr a \<and> d ''email'' = JStr b \<and> d ''phone'' = JStr c \<and>
                    d ''password'' = JStr p"
  using assms by (auto simp: typed_def is_string_def split: jsval.splits)

lemma registration_request_strings:
  assumes "d ''fullName'' = JStr a" "d ''email'' = JStr b" "d ''phone'' = JStr c"
    "d ''password'' = JStr p"
  shows "registration_request u d =
     \<lparr>url = u @ ''/auth/user/register'', http_method = ''POST'',
      headers = [(''Content-Type'', ''application/json'')],
      body = JObject [(''fullName'', JString a), (''email'', JString b),
                      (''phone'', JString c), (''password'', JString p)]\<rparr>"
  using assms by (simp add: registration_request_def stringify_def)

lemma typed_scenario_A: "typed scenario_A"
  by (simp add: typed_def scenario_A_def is_string_def is_boolean_def)

text \<open>
  Claim C5. For a form state that is typed and passes validation, with the API base URL
  configured, the one request of a submit is a POST to the base URL followed by
  \<^verbatim>\<open>/auth/user/register\<close>, with the header \<^verbatim>\<open>Content-Type: application/json\<close> and a JSON
  body of exactly the four string fields \<^verbatim>\<open>fullName\<close>, \<^verbatim>\<open>email\<close>, \<^verbatim>\<open>phone\<close> and \<^verbatim>\<open>password\<close>,
  each taken from the form state. \<^verbatim>\<open>confirmPassword\<close> and \<^verbatim>\<open>agreeToTerms\<close> are not in it.
\<close>

theorem registration_request_shape:
  assumes "typed d" and "validateForm d = Inr []" and "getApiBaseUrl e = Inr u"
  shows "\<exists>a b c p.
           d ''fullName'' = JStr a \<and> d ''email'' = JStr b \<and> d ''phone'' = JStr c \<and>
           d ''password'' = JStr p \<and>
           sent e server d =
             [\<lparr>url = u @ ''/auth/user/register'', http_method = ''POST'',
               headers = [(''Content-Type'', ''application/json'')],
               body = JObject [(''fullName'', JString a), (''email'', JString b),
                               (''phone'', JString c), (''password'', JString p)]\<rparr>]"
proof -
  from typed_strings[OF assms(1)] obtain a b c p where
    f: "d ''fullName'' = JStr a" "d ''email'' = JStr b" "d ''phone'' = JStr c"
       "d ''password'' = JStr p" by blast
  have "sent e server d = [registration_request u d]"
    by (simp add: sent_valid[OF assms(2)] requests_attempt assms(3))
  with f registration_request_strings[OF f] show ?thesis by simp
qed

theorem registration_request_shape_witness:
  "typed scenario_A \<and> validateForm scenario_A = Inr [] \<and>
   getApiBaseUrl configured = Inr ''https://api.example.com'' \<and>
   sent configured (replying (Response 201 NotJson)) scenario_A =
     [\<lparr>url = ''https://api.example.com/auth/user/register'', http_method = ''POST'',
       headers = [(''Content-Type'', ''application/json'')],
       body = JObject [(''fullName'', JString ''Jane Doe''),
                       (''email'', JString ''jane@example.com''),
                       (''phone'', JString ''0771234567''),
                       (''password'', JString ''password123'')]\<rparr>]"
  using registration_request_shape [OF typed_scenario_A scenario_A_valid configured_url,
      of "replying (Response 201 NotJson)"]
    typed_scenario_A scenario_A_valid configured_url
  by (auto simp: scenario_A_def)

section \<open>Failed submissions\<close>

text \<open>
  Claim C6, as stated, fails: after a network failure the form shows "Registration failed.
  Please try again later.", and after a rejection whose JSON body has no message field it
  shows "Registration failed". The two messages differ.
\<close>

theorem failure_messages_differ:
  "error (submit configured (replying Rejected) (filled scenario_A)) =
     JString ''Registration failed. Please try again later.'' \<and>
   error (submit configured (replying (Response 500 (Json (JObject [])))) (filled scenario_A)) =
     JString ''Registration failed'' \<and>
   error (submit configured (replying Rejected) (filled scenario_A)) \<noteq>
   error (submit configured (replying (Response 500 (Json (JObject [])))) (filled scenario_A))"
proof -
  have a: "error (submit configured (replying Rejected) (filled scenario_A)) =
     JString ''Registration failed. Please try again later.''"
    by (rule error_submit_thrown[where err = FetchFailed])
      (simp_all add: filled_formData scenario_A_valid
        submitRegistration_rejected[OF configured_url] replying_def)
  have b: "error (submit configured (replying (Response 500 (Json (JObject [])))) (filled scenario_A)) =
     or_fallback (map_of [] ''message'')"
    by (rule error_submit_rejection[where u = "''https://api.example.com''" and status = 500])
      (simp_all add: filled_formData scenario_A_valid configured_url replying_def not_ok_examples)
  from a b show ?thesis by simp
qed

text \<open>
  Claim C6, amended. For a form that passes validation, every submission that ends in an
  exception of \<^const>\<open>submitRegistration\<close> shows the same message, "Registration failed. Please
  try again later.", whatever was thrown (a network failure, a missing API base URL, a body
  that cannot be read); what was thrown appears only in the logged error. A rejection
  whose JSON object has no message field is not an exception: it shows the different
  message "Registration failed" and logs nothing.
\<close>

theorem failure_message_by_path:
  assumes "validateForm d = Inr []"
  shows "(snd (submitRegistration e server d) = Inl err \<longrightarrow>
            handleSubmit e server d =
              Inr ([SetFormErrors [], SetLoading True, SetError (JString [])] @
                   fst (submitRegistration e server d) @
                   [SetError (JString ''Registration failed. Please try again later.''),
                    ConsoleError ''[Register] Network or server error:'' err,
                    SetLoading False])) \<and>
         (getApiBaseUrl e = Inr u \<and> server (registration_request u d) = Rejected \<longrightarrow>
            snd (submitRegistration e server d) = Inl FetchFailed) \<and>
         (getApiBaseUrl e = Inl m \<longrightarrow>
            snd (submitRegistration e server d) = Inl (Error m)) \<and>
         (getApiBaseUrl e = Inr u \<and>
          server (registration_request u d) = Response status (Json (JObject kvs)) \<and>
          \<not> ok status \<and> map_of kvs ''message'' = None \<longrightarrow>
            handleSubmit e server d =
              Inr [SetFormErrors [], SetLoading True, SetError (JString []),
                   Fetch (registration_request u d),
                   SetError (JString ''Registration failed''), SetLoading False])"
proof (intro conjI impI)
  assume "snd (submitRegistration e server d) = Inl err"
  with assms show "handleSubmit e server d =
      Inr ([SetFormErrors [], SetLoading True, SetError (JString [])] @
           fst (submitRegistration e server d) @
           [SetError (JString ''Registration failed. Please try again later.''),
            ConsoleError ''[Register] Network or server error:'' err, SetLoading False])"
    by (rule handleSubmit_thrown)
next
  assume "getApiBaseUrl e = Inr u \<and> server (registration_request u d) = Rejected"
  then show "snd (submitRegistration e server d) = Inl FetchFailed"
    by (simp add: submitRegistration_rejected)
next
  assume "getApiBaseUrl e = Inl m"
  then show "snd (submitRegistration e server d) = Inl (Error m)"
    by (simp add: submitRegistration_unconfigured)
next
  assume a: "getApiBaseUrl e = Inr u \<and>
      server (registration_request u d) = Response status (Json (JObject kvs)) \<and>
      \<not> ok status \<and> map_of kvs ''message'' = None"
  then have "handleSubmit e server d =
      Inr [SetFormErrors [], SetLoading True, SetError (JString []),
           Fetch (registration_request u d),
           SetError (or_fallback (map_of kvs ''message'')), SetLoading False]"
    using handleSubmit_rejection[where server = server, OF assms, of e u status kvs] by blast
  with a show "handleSubmit e server d =
      Inr [SetFormErrors [], SetLoading True, SetError (JString []),
           Fetch (registration_request u d),
           SetError (JString ''Registration failed''), SetLoading False]"
    by simp
qed

theorem failure_message_by_path_witness:
  "validateForm scenario_A = Inr [] \<and>
   handleSubmit configured (replying Rejected) scenario_A =
     Inr [SetFormErrors [], SetLoading True, SetError (JString []),
          Fetch (registration_request ''https://api.example.com'' scenario_A),
          SetError (JString ''Registration failed. Please try again later.''),
          ConsoleError ''[Register] Network or server error:'' FetchFailed,
          SetLoading False] \<and>
   handleSubmit unconfigured (replying Rejected) scenario_A =
     Inr [SetFormErrors [], SetLoading True, SetError (JString []),
          SetError (JString ''Registration failed. Please try again later.''),
          ConsoleError ''[Register] Network or server error:''
            (Error ''REACT_APP_API_BASE_URL environment variable is required''),
          SetLoading False] \<and>
   handleSubmit configured (replying (Response 500 (Json (JObject [])))) scenario_A =
     Inr [SetFormErrors [], SetLoading True, SetError (JString []),
          Fetch (registration_request ''https://api.example.com'' scenario_A),
          SetError (JString ''Registration failed''), SetLoading False]"
  using scenario_A_valid
    failure_message_by_path [OF scenario_A_valid, of configured "replying Rejected" FetchFailed
      "''https://api.example.com''"]
    failure_message_by_path [OF scenario_A_valid, of unconfigured "replying Rejected"
      "Error ''REACT_APP_API_BASE_URL environment variable is required''" _
      "''REACT_APP_API_BASE_URL environment variable is required''"]
    failure_message_by_path [OF scenario_A_valid, of configured
      "replying (Response 500 (Json (JObject [])))" _ "''https://api.example.com''" _ 500 "[]"]
  by (simp add: configured_url unconfigured_url replying_def ok_def
      submitRegistration_configured submitRegistration_unconfigured)

text \<open>
  Claim C9. When the backend answers with a status outside 200 to 299 and a body that is
  not JSON, reading the body throws, the branch that builds a failure from the body is not
  reached, and the submission ends in the \<^verbatim>\<open>catch\<close> block: the form shows "Registration
  failed. Please try again later." and the error is logged.
\<close>

theorem unparseable_rejection:
  assumes "validateForm d = Inr []" and "getApiBaseUrl e = Inr u"
    and "server (registration_request u d) = Response status NotJson" and "\<not> ok status"
  shows "submitRegistration e server d = ([Fetch (registration_request u d)], Inl SyntaxError) \<and>
         handleSubmit e server d =
           Inr [SetFormErrors [], SetLoading True, SetError (JString []),
                Fetch (registration_request u d),
                SetError (JString ''Registration failed. Please try again later.''),
                ConsoleError ''[Register] Network or server error:'' SyntaxError,
                SetLoading False] \<and>
         error (submit e server (s\<lparr>formData := d\<rparr>)) =
           JString ''Registration failed. Please try again later.''"
proof -
  have t: "snd (submitRegistration e server d) = Inl SyntaxError"
    using assms(2) assms(3) assms(4) by (simp add: submitRegistration_not_json)
  have f: "fst (submitRegistration e server d) = [Fetch (registration_request u d)]"
    using assms(2) by (rule submitRegistration_configured)
  from t f have "submitRegistration e server d = ([Fetch (registration_request u d)], Inl SyntaxError)"
    by (cases "submitRegistration e server d") simp
  moreover have "handleSubmit e server d =
           Inr [SetFormErrors [], SetLoading True, SetError (JString []),
                Fetch (registration_request u d),
                SetError (JString ''Registration failed. Please try again later.''),
                ConsoleError ''[Register] Network or server error:'' SyntaxError,
                SetLoading False]"
    using handleSubmit_thrown[OF assms(1) t] f by simp
  moreover have "error (submit e server (s\<lparr>formData := d\<rparr>)) =
           JString ''Registration failed. Please try again later.''"
    by (rule error_submit_thrown[where err = SyntaxError]) (simp_all add: assms(1) t)
  ultimately show ?thesis by simp
qed

theorem unparseable_rejection_witness:
  "validateForm scenario_A = Inr [] \<and>
   getApiBaseUrl configured = Inr ''https://api.example.com'' \<and> \<not> ok 500 \<and>
   error (submit configured (replying (Response 500 NotJson)) (filled scenario_A)) =
     JString ''Registration failed. Please try again later.''"
  using unparseable_rejection [OF scenario_A_valid configured_url, of
      "replying (Response 500 NotJson)" 500 initial]
    scenario_A_valid configured_url
  by (simp add: replying_def ok_def filled_def)

section \<open>Configuration\<close>

lemma validateConfig_absent:
  "absent (e ''REACT_APP_API_BASE_URL'') \<Longrightarrow>
   \<exists>out. validateConfig e =
     (out, Inl ''Missing required environment variables: REACT_APP_API_BASE_URL is required'')"
  by (simp add: validateConfig_def Let_def)

lemma getApiBaseUrl_absent:
  "absent (e ''REACT_APP_API_BASE_URL'') \<Longrightarrow>
   getApiBaseUrl e = Inl ''REACT_APP_API_BASE_URL environment variable is required''"
  by (cases "e ''REACT_APP_API_BASE_URL''") (simp_all add: getApiBaseUrl_def)

lemma getApiBaseUrl_present:
  "e ''REACT_APP_API_BASE_URL'' = Some u \<Longrightarrow> u \<noteq> [] \<Longrightarrow> getApiBaseUrl e = Inr u"
  by (simp add: getApiBaseUrl_def)

lemma initializeConfig_absent:
  assumes "absent (e ''REACT_APP_API_BASE_URL'')"
  shows "snd (initializeConfig e) = False"
proof -
  from assms validateConfig_absent[of e] obtain out m where "validateConfig e = (out, Inl m)"
    by blast
  then show ?thesis by (simp add: initializeConfig_def)
qed

lemma validateConfig_present:
  assumes "e ''REACT_APP_API_BASE_URL'' = Some u" and "u \<noteq> []"
  shows "validateConfig e =
     ((if absent (e ''REACT_APP_RP_ID'') \<or> absent (e ''REACT_APP_RP_NAME'')
       then [Warn ''Configuration warnings:''
               ((if absent (e ''REACT_APP_RP_ID'')
                 then [''REACT_APP_RP_ID is not set - passkey functionality may not work'']
                 else []) @
                (if absent (e ''REACT_APP_RP_NAME'')
                 then [''REACT_APP_RP_NAME is not set - using default''] else []))]
       else []), Inr True)"
  using assms by (simp add: validateConfig_def Let_def)

text \<open>
  Claim C7. When the API base URL is unset, \<^const>\<open>getApiBaseUrl\<close> raises its descriptive
  error (it reads the environment itself, so this does not depend on a call of
  \<^const>\<open>validateConfig\<close>) and \<^const>\<open>initializeConfig\<close> returns false. When the API base URL is
  present, that is set to a non-empty string, and the relying-party id is unset,
  \<^const>\<open>initializeConfig\<close> returns true and the console holds one warning call, which lists
  the missing relying-party id, followed by the four informational lines and no error.
\<close>

theorem config_required_and_optional:
  "(e ''REACT_APP_API_BASE_URL'' = None \<longrightarrow>
      getApiBaseUrl e = Inl ''REACT_APP_API_BASE_URL environment variable is required'' \<and>
      snd (initializeConfig e) = False) \<and>
   (e ''REACT_APP_API_BASE_URL'' = Some u \<and> u \<noteq> [] \<and> e ''REACT_APP_RP_ID'' = None \<longrightarrow>
      snd (initializeConfig e) = True \<and>
      fst (initializeConfig e) =
        [Warn ''Configuration warnings:''
           (''REACT_APP_RP_ID is not set - passkey functionality may not work'' #
            (if absent (e ''REACT_APP_RP_NAME'')
             then [''REACT_APP_RP_NAME is not set - using default''] else [])),
         Log ''Configuration validated successfully'' [],
         Log ''API Base URL:'' [u],
         Log ''RP ID:'' [[]],
         Log ''RP Name:'' [getRpName e]])"
proof (intro conjI impI)
  assume "e ''REACT_APP_API_BASE_URL'' = None"
  then have a: "absent (e ''REACT_APP_API_BASE_URL'')" by simp
  show "getApiBaseUrl e = Inl ''REACT_APP_API_BASE_URL environment variable is required''"
    using a by (rule getApiBaseUrl_absent)
  show "snd (initializeConfig e) = False"
    using a by (rule initializeConfig_absent)
next
  assume p: "e ''REACT_APP_API_BASE_URL'' = Some u \<and> u \<noteq> [] \<and> e ''REACT_APP_RP_ID'' = None"
  then have v: "validateConfig e =
      ([Warn ''Configuration warnings:''
          ([''REACT_APP_RP_ID is not set - passkey functionality may not work''] @
           (if absent (e ''REACT_APP_RP_NAME'')
            then [''REACT_APP_RP_NAME is not set - using default''] else []))], Inr True)"
    using validateConfig_present[of e u] by simp
  from p have g: "getApiBaseUrl e = Inr u" by (simp add: getApiBaseUrl_present)
  from p have r: "getRpId e = []" by (simp add: getRpId_def)
  show "snd (initializeConfig e) = True"
    by (simp add: initializeConfig_def v g)
  show "fst (initializeConfig e) =
        [Warn ''Configuration warnings:''
           (''REACT_APP_RP_ID is not set - passkey functionality may not work'' #
            (if absent (e ''REACT_APP_RP_NAME'')
             then [''REACT_APP_RP_NAME is not set - using default''] else [])),
         Log ''Configuration validated successfully'' [],
         Log ''API Base URL:'' [u],
         Log ''RP ID:'' [[]],
         Log ''RP Name:'' [getRpName e]]"
    by (simp add: initializeConfig_def v g r)
qed

theorem config_required_and_optional_witness:
  "unconfigured ''REACT_APP_API_BASE_URL'' = None \<and>
   getApiBaseUrl unconfigured =
     Inl ''REACT_APP_API_BASE_URL environment variable is required'' \<and>
   snd (initializeConfig unconfigured) = False \<and>
   configured ''REACT_APP_API_BASE_URL'' = Some ''https://api.example.com'' \<and>
   configured ''REACT_APP_RP_ID'' = None \<and>
   initializeConfig configured =
     ([Warn ''Configuration warnings:''
         [''REACT_APP_RP_ID is not set - passkey functionality may not work'',
          ''REACT_APP_RP_NAME is not set - using default''],
       Log ''Configuration validated successfully'' [],
       Log ''API Base URL:'' [''https://api.example.com''],
       Log ''RP ID:'' [[]],
       Log ''RP Name:'' [''Digital Identity Hub'']], True)"
  using config_required_and_optional [of unconfigured "''https://api.example.com''"]
    config_required_and_optional [of configured "''https://api.example.com''"]
  by (simp add: configured_def unconfigured_def getRpName_def prod_eq_iff)

lemma absent_empty: "absent ((e(v \<mapsto> [])) k) = absent ((e(v := None)) k)"
  by simp

lemma or_default_empty: "or_default ((e(v \<mapsto> [])) k) d = or_default ((e(v := None)) k) d"
  by simp

lemma validateConfig_empty: "validateConfig (e(v \<mapsto> [])) = validateConfig (e(v := None))"
  unfolding validateConfig_def absent_empty ..

lemma getApiBaseUrl_empty: "getApiBaseUrl (e(v \<mapsto> [])) = getApiBaseUrl (e(v := None))"
  by (simp add: getApiBaseUrl_def)

text \<open>
  Claim C10. A variable set to the empty string cannot be told from an unset one by any
  function of \<^verbatim>\<open>config.js\<close>: each gives the same result, console output included, on both
  environments. In particular, with the API base URL empty or unset \<^const>\<open>validateConfig\<close>
  and \<^const>\<open>getApiBaseUrl\<close> raise the same errors; with the relying-party id empty
  \<^const>\<open>getRpId\<close> returns the empty string, and with the relying-party name empty
  \<^const>\<open>getRpName\<close> returns the default.
\<close>

theorem empty_is_unset:
  "validateConfig (e(v \<mapsto> [])) = validateConfig (e(v := None)) \<and>
   getApiBaseUrl (e(v \<mapsto> [])) = getApiBaseUrl (e(v := None)) \<and>
   getRpId (e(v \<mapsto> [])) = getRpId (e(v := None)) \<and>
   getRpName (e(v \<mapsto> [])) = getRpName (e(v := None)) \<and>
   initializeConfig (e(v \<mapsto> [])) = initializeConfig (e(v := None)) \<and>
   snd (validateConfig (e(''REACT_APP_API_BASE_URL'' \<mapsto> []))) =
     Inl ''Missing required environment variables: REACT_APP_API_BASE_URL is required'' \<and>
   snd (validateConfig (e(''REACT_APP_API_BASE_URL'' := None))) =
     Inl ''Missing required environment variables: REACT_APP_API_BASE_URL is required'' \<and>
   getApiBaseUrl (e(''REACT_APP_API_BASE_URL'' \<mapsto> [])) =
     Inl ''REACT_APP_API_BASE_URL environment variable is required'' \<and>
   getApiBaseUrl (e(''REACT_APP_API_BASE_URL'' := None)) =
     Inl ''REACT_APP_API_BASE_URL environment variable is required'' \<and>
   getRpId (e(''REACT_APP_RP_ID'' \<mapsto> [])) = [] \<and>
   getRpName (e(''REACT_APP_RP_NAME'' \<mapsto> [])) = ''Digital Identity Hub''"
proof (intro conjI)
  show "validateConfig (e(v \<mapsto> [])) = validateConfig (e(v := None))"
    by (rule validateConfig_empty)
  show "getApiBaseUrl (e(v \<mapsto> [])) = getApiBaseUrl (e(v := None))"
    by (rule getApiBaseUrl_empty)
  show "getRpId (e(v \<mapsto> [])) = getRpId (e(v := None))"
    unfolding getRpId_def by (rule or_default_empty)
  show "getRpName (e(v \<mapsto> [])) = getRpName (e(v := None))"
    unfolding getRpName_def by (rule or_default_empty)
  have r: "getRpId (e(v \<mapsto> [])) = getRpId (e(v := None))"
    "getRpName (e(v \<mapsto> [])) = getRpName (e(v := None))"
    unfolding getRpId_def getRpName_def by (rule or_default_empty)+
  show "initializeConfig (e(v \<mapsto> [])) = initializeConfig (e(v := None))"
    unfolding initializeConfig_def validateConfig_empty getApiBaseUrl_empty r ..
  show "snd (validateConfig (e(''REACT_APP_API_BASE_URL'' \<mapsto> []))) =
     Inl ''Missing required environment variables: REACT_APP_API_BASE_URL is required''"
    using validateConfig_absent[of "e(''REACT_APP_API_BASE_URL'' \<mapsto> [])"] by auto
  show "snd (validateConfig (e(''REACT_APP_API_BASE_URL'' := None))) =
     Inl ''Missing required environment variables: REACT_APP_API_BASE_URL is required''"
    using validateConfig_absent[of "e(''REACT_APP_API_BASE_URL'' := None)"] by auto
  show "getApiBaseUrl (e(''REACT_APP_API_BASE_URL'' \<mapsto> [])) =
     Inl ''REACT_APP_API_BASE_URL environment variable is required''"
    by (rule getApiBaseUrl_absent) simp
  show "getApiBaseUrl (e(''REACT_APP_API_BASE_URL'' := None)) =
     Inl ''REACT_APP_API_BASE_URL environment variable is required''"
    by (rule getApiBaseUrl_absent) simp
  show "getRpId (e(''REACT_APP_RP_ID'' \<mapsto> [])) = []"
    by (simp add: getRpId_def)
  show "getRpName (e(''REACT_APP_RP_NAME'' \<mapsto> [])) = ''Digital Identity Hub''"
    by (simp add: getRpName_def)
qed

theorem empty_is_unset_witness:
  "getApiBaseUrl (configured(''REACT_APP_API_BASE_URL'' \<mapsto> [])) =
     Inl ''REACT_APP_API_BASE_URL environment variable is required'' \<and>
   getRpId (configured(''REACT_APP_RP_ID'' \<mapsto> [])) = [] \<and>
   getRpName (configured(''REACT_APP_RP_NAME'' \<mapsto> [])) = ''Digital Identity Hub'' \<and>
   initializeConfig (unconfigured(''REACT_APP_API_BASE_URL'' \<mapsto> [])) =
     initializeConfig (unconfigured(''REACT_APP_API_BASE_URL'' := None))"
  using empty_is_unset [of configured "''REACT_APP_API_BASE_URL''"]
    empty_is_unset [of unconfigured "''REACT_APP_API_BASE_URL''"]
  by simp

end
